theory Spec2Isabelle
  imports Main "HOL-Library.Word"
begin

section \<open>Data model\<close>

text \<open>
  Go's \<open>int\<close> on a 64-bit target: addition wraps, comparison is signed.
  \<open>time.Duration\<close> is an \<open>int64\<close> count of nanoseconds.
\<close>

type_synonym go_int = "64 word"
type_synonym duration = "64 word"

text \<open>Points in time are nanoseconds on the clock read by \<open>time.Now()\<close>.\<close>

type_synonym time = int

subsection \<open>errors.go\<close>

datatype ErrorType = ErrorTypeConfig | ErrorTypeMetering | ErrorTypeNetwork | ErrorTypeValidation

text \<open>
  A formatted text is kept as its format string and its arguments (\<open>fmt.Sprintf\<close>,
  \<open>log.Printf\<close>). An error is either a \<open>ReveniumError\<close> or an error value that
  comes from outside the package (transport, JSON encoder, context, inner client).
\<close>

datatype error =
    ReveniumError ErrorType string "arg list" "error option"
  | Foreign string
and arg = Str string | Num int | Flag bool | Err error

definition newMeteringError :: "string \<Rightarrow> arg list \<Rightarrow> error option \<Rightarrow> error" where
  "newMeteringError msg as err = ReveniumError ErrorTypeMetering msg as err"

definition newNetworkError :: "string \<Rightarrow> error option \<Rightarrow> error" where
  "newNetworkError msg err = ReveniumError ErrorTypeNetwork msg [] err"

subsection \<open>logger.go\<close>

datatype level = DEBUG | INFO | WARN | ERROR

datatype log_line = Log level string "arg list"

record Logger =
  debug :: bool

subsection \<open>config.go, metering.go: configuration and payload\<close>

record CredentialResource =
  cred_Name :: string
  cred_Value :: string

record SubscriberResource =
  sub_ID :: string
  sub_Email :: string
  sub_Credential :: "CredentialResource option"

record Config =
  APIKey :: string
  BaseURL :: string
  cfg_Squad :: string
  Environment :: string
  OrganizationName :: string
  SubscriptionID :: string
  ProductName :: string
  Subscriber :: "SubscriberResource option"
  Debug :: bool

text \<open>The fields of \<open>MeteringPayload\<close>, under the names of their JSON tags.\<close>

record MeteringPayload =
  model :: string
  inputTokenCount :: go_int
  outputTokenCount :: go_int
  totalTokenCount :: go_int
  stopReason :: string
  requestTime :: string
  completionStartTime :: string
  responseTime :: string
  requestDuration :: int
  provider :: string
  isStreamed :: bool
  billingUnit :: string
  transactionId :: string
  traceId :: string
  traceName :: string
  traceType :: string
  parentTransactionId :: string
  agent :: string
  squadId :: string
  squadName :: string
  organizationName :: string
  environment :: string
  middlewareSource :: string
  cacheReadTokenCount :: go_int
  cacheCreationTokenCount :: go_int
  systemPrompt :: string
  inputMessages :: string
  outputResponse :: string
  promptsTruncated :: bool
  subscriptionId :: string
  productName :: string
  subscriber :: "SubscriberResource option"

subsection \<open>context.go\<close>

record TraceContext =
  TraceID :: string
  TraceName :: string
  TraceType :: string
  TransactionID :: string
  ParentTxnID :: string
  Squad :: string

text \<open>
  A \<open>context.Context\<close>, as far as this package reads it: the value stored under
  \<open>contextKey{}\<close>, if any.
\<close>

record go_context =
  trace_value :: "TraceContext option"

subsection \<open>The host runtime's types (goa-ai), as far as the package reads them\<close>

record run_Context =
  RunID :: string
  ParentRunID :: string

record TokenUsage =
  InputTokens :: go_int
  OutputTokens :: go_int
  TotalTokens :: go_int
  CacheReadTokens :: go_int
  CacheWriteTokens :: go_int

datatype Part = TextPart string | OtherPart

record Message =
  Role :: string
  Parts :: "Part list"

record Request =
  Model :: string
  Messages :: "Message list"

record Response =
  Usage :: TokenUsage
  StopReason :: string
  Content :: "Message list"

record Chunk =
  UsageDelta :: "TokenUsage option"
  chunk_StopReason :: string
  chunk_Message :: "Message option"

text \<open>
  Stream events. Every event knows the run that owns it (\<open>RunID()\<close>); the data of
  an event is given as far as \<open>MeteringSink.Send\<close> reads it.
\<close>

datatype event =
    ToolStart string string string
  | ToolEnd string string string string
  | Workflow string string string
  | ChildRunLinked string string string string
  | UsageEvent string string go_int go_int go_int
  | OtherEvent string

subsection \<open>The state the package works on\<close>

text \<open>
  \<open>Meter\<close> holds the configuration and the logger. Its two mutable members, the
  registry \<open>traces\<close> (a \<open>sync.Map\<close> from run ID to trace ID) and the wait
  group \<open>wg\<close>, live in the state, together with what the package does to the outside:
  the lines it logs, the goroutines that \<open>SendAsync\<close> starts (each owns its payload),
  the calls of \<open>send\<close> (with URL and body) and the waits between them, and the number
  of UUIDs drawn so far.
\<close>

record Meter =
  cfg :: Config
  logger :: Logger

datatype io_event = Attempt string string | Sleep duration

record state =
  traces :: "string \<rightharpoonup> string"
  wg :: int
  logged :: "log_line list"
  spawned :: "MeteringPayload list"
  io :: "io_event list"
  uuids :: nat

section \<open>logger.go\<close>

definition Debug_log :: "Logger \<Rightarrow> string \<Rightarrow> arg list \<Rightarrow> state \<Rightarrow> state" where
  "Debug_log l msg as s = (if debug l then s\<lparr>logged := logged s @ [Log DEBUG msg as]\<rparr> else s)"

definition Warn_log :: "Logger \<Rightarrow> string \<Rightarrow> arg list \<Rightarrow> state \<Rightarrow> state" where
  "Warn_log l msg as s = s\<lparr>logged := logged s @ [Log WARN msg as]\<rparr>"

definition Error_log :: "Logger \<Rightarrow> string \<Rightarrow> arg list \<Rightarrow> state \<Rightarrow> state" where
  "Error_log l msg as s = s\<lparr>logged := logged s @ [Log ERROR msg as]\<rparr>"

section \<open>metering.go: stop reasons and the trace registry\<close>

definition StopReasonEnd :: string where
  "StopReasonEnd = ''END''"

definition StopReasonTokenLimit :: string where
  "StopReasonTokenLimit = ''TOKEN_LIMIT''"

definition MapStopReason :: "string \<Rightarrow> string" where
  "MapStopReason providerReason =
     (if providerReason = ''stop'' \<or> providerReason = ''end_turn'' \<or> providerReason = ''complete''
        then StopReasonEnd
      else if providerReason = ''tool_calls'' \<or> providerReason = ''tool_use''
        then StopReasonEnd
      else if providerReason = ''length'' \<or> providerReason = ''max_tokens''
        then StopReasonTokenLimit
      else if providerReason = ''content_filter''
        then StopReasonEnd
      else if providerReason = ''''
        then StopReasonEnd
      else StopReasonEnd)"

definition RegisterTrace :: "Meter \<Rightarrow> string \<Rightarrow> string \<Rightarrow> state \<Rightarrow> state" where
  "RegisterTrace m runID traceID s =
     Debug_log (logger m) ''registered trace: run=%s trace=%s'' [Str runID, Str traceID]
       (s\<lparr>traces := (traces s)(runID \<mapsto> traceID)\<rparr>)"

definition LookupTrace :: "state \<Rightarrow> string \<Rightarrow> string \<times> bool" where
  "LookupTrace s runID =
     (case traces s runID of None \<Rightarrow> ('''', False) | Some v \<Rightarrow> (v, True))"

definition UnregisterTrace :: "Meter \<Rightarrow> string \<Rightarrow> state \<Rightarrow> state" where
  "UnregisterTrace m runID s =
     Debug_log (logger m) ''unregistered trace: run=%s'' [Str runID]
       (s\<lparr>traces := (traces s)(runID := None)\<rparr>)"

section \<open>context.go\<close>

text \<open>
  \<open>uuid.New().String()\<close> belongs to an outside library. The generator is a
  parameter \<open>gen\<close>: the \<open>n\<close>-th UUID drawn in a run of the process is
  \<open>gen n\<close>.
\<close>

definition uuid_New_String :: "(nat \<Rightarrow> string) \<Rightarrow> state \<Rightarrow> string \<times> state" where
  "uuid_New_String gen s = (gen (uuids s), s\<lparr>uuids := Suc (uuids s)\<rparr>)"

definition WithTraceContext ::
  "(nat \<Rightarrow> string) \<Rightarrow> go_context \<Rightarrow> TraceContext option \<Rightarrow> state \<Rightarrow> go_context \<times> state" where
  "WithTraceContext gen ctx tc s =
     (let tc1 = (case tc of
                   None \<Rightarrow> \<lparr>TraceID = '''', TraceName = '''', TraceType = '''',
                            TransactionID = '''', ParentTxnID = '''', Squad = ''''\<rparr>
                 | Some t \<Rightarrow> t);
          tcCopy = tc1
      in if TraceID tcCopy = ''''
         then (let (u, s1) = uuid_New_String gen s
               in (ctx\<lparr>trace_value := Some (tcCopy\<lparr>TraceID := u\<rparr>)\<rparr>, s1))
         else (ctx\<lparr>trace_value := Some tcCopy\<rparr>, s))"

definition GetTraceContext :: "go_context \<Rightarrow> TraceContext option" where
  "GetTraceContext ctx = trace_value ctx"

section \<open>squad.go\<close>

text \<open>\<open>strings.Index\<close> for a pattern of one byte: the first position, or \<open>-1\<close>.\<close>

definition Index :: "string \<Rightarrow> char \<Rightarrow> int" where
  "Index str c = (if c \<in> set str then int (length (takeWhile (\<lambda>x. x \<noteq> c) str)) else - 1)"

definition DetectSquad :: "string \<Rightarrow> string" where
  "DetectSquad agentID =
     (let i = Index agentID (CHR ''.'')
      in if i > 0 then take (nat i) agentID else agentID)"

definition ResolveSquad :: "Config \<Rightarrow> string \<Rightarrow> string" where
  "ResolveSquad c agentID = (if cfg_Squad c \<noteq> '''' then cfg_Squad c else DetectSquad agentID)"

section \<open>planner.go\<close>

record MeteringPlanner =
  p_Meter :: Meter
  AgentID :: string
  Provider :: string
  ModelName :: string
  CapturePrompts :: bool

definition resolveProvider :: "MeteringPlanner \<Rightarrow> string" where
  "resolveProvider p = (if Provider p \<noteq> '''' then Provider p else ''unknown'')"

definition ensureTraceContext ::
  "(nat \<Rightarrow> string) \<Rightarrow> MeteringPlanner \<Rightarrow> go_context \<Rightarrow> run_Context \<Rightarrow> state
     \<Rightarrow> go_context \<times> state" where
  "ensureTraceContext gen p ctx rc s =
     (let existing = GetTraceContext ctx;
          tc = \<lparr>TraceID = '''', TraceName = '''', TraceType = ''agent'',
                TransactionID = RunID rc, ParentTxnID = '''',
                Squad = ResolveSquad (cfg (p_Meter p)) (AgentID p)\<rparr>
      in if existing \<noteq> None \<and> TraceID (the existing) \<noteq> ''''
         then (let tc1 = tc\<lparr>TraceID := TraceID (the existing),
                             TraceName := TraceName (the existing)\<rparr>;
                   tc2 = (if ParentRunID rc \<noteq> '''' then tc1\<lparr>ParentTxnID := ParentRunID rc\<rparr>
                          else tc1);
                   s1 = RegisterTrace (p_Meter p) (RunID rc) (TraceID tc2) s
               in WithTraceContext gen ctx (Some tc2) s1)
         else if ParentRunID rc = ''''
         then (let (u, s1) = uuid_New_String gen s;
                   tc1 = tc\<lparr>TraceID := u\<rparr>;
                   s2 = RegisterTrace (p_Meter p) (RunID rc) (TraceID tc1) s1
               in WithTraceContext gen ctx (Some tc1) s2)
         else (let (parentTraceID, ok) = LookupTrace s (ParentRunID rc);
                   (tc1, s1) =
                     (if ok then (tc\<lparr>TraceID := parentTraceID\<rparr>, s)
                      else (let s0 = Warn_log (logger (p_Meter p))
                                       ''parent trace not found for run=%s parent=%s, generating new traceID''
                                       [Str (RunID rc), Str (ParentRunID rc)] s;
                                (u, s00) = uuid_New_String gen s0
                            in (tc\<lparr>TraceID := u\<rparr>, s00)));
                   tc2 = tc1\<lparr>ParentTxnID := ParentRunID rc\<rparr>;
                   s2 = RegisterTrace (p_Meter p) (RunID rc) (TraceID tc2) s1
               in WithTraceContext gen ctx (Some tc2) s2))"

text \<open>
  The repository holds a second copy of \<open>planner.go\<close> (its \<open>MeteringPlanner\<close> has
  no \<open>ModelName\<close>). Its \<open>ensureTraceContext\<close> returns at once when the context
  carries any trace context.
\<close>

definition ensureTraceContext_copy2 ::
  "(nat \<Rightarrow> string) \<Rightarrow> MeteringPlanner \<Rightarrow> go_context \<Rightarrow> run_Context \<Rightarrow> state
     \<Rightarrow> go_context \<times> state" where
  "ensureTraceContext_copy2 gen p ctx rc s =
     (if GetTraceContext ctx \<noteq> None then (ctx, s)
      else
        (let tc = \<lparr>TraceID = '''', TraceName = '''', TraceType = ''agent'',
                   TransactionID = RunID rc, ParentTxnID = '''',
                   Squad = ResolveSquad (cfg (p_Meter p)) (AgentID p)\<rparr>
         in if ParentRunID rc = ''''
            then (let (u, s1) = uuid_New_String gen s;
                      tc1 = tc\<lparr>TraceID := u\<rparr>;
                      s2 = RegisterTrace (p_Meter p) (RunID rc) (TraceID tc1) s1
                  in WithTraceContext gen ctx (Some tc1) s2)
            else (let (parentTraceID, ok) = LookupTrace s (ParentRunID rc);
                      (tc1, s1) =
                        (if ok then (tc\<lparr>TraceID := parentTraceID\<rparr>, s)
                         else (let s0 = Warn_log (logger (p_Meter p))
                                          ''parent trace not found for run=%s parent=%s, generating new traceID''
                                          [Str (RunID rc), Str (ParentRunID rc)] s;
                                   (u, s00) = uuid_New_String gen s0
                               in (tc\<lparr>TraceID := u\<rparr>, s00)));
                      tc2 = tc1\<lparr>ParentTxnID := ParentRunID rc\<rparr>;
                      s2 = RegisterTrace (p_Meter p) (RunID rc) (TraceID tc2) s1
                  in WithTraceContext gen ctx (Some tc2) s2)))"

section \<open>sink.go\<close>

text \<open>
  The inner sink is the host's: a function of its own state \<open>'i\<close>, the context
  and the event, giving the error it returns (if any) and its new state.
\<close>

type_synonym 'i sink = "'i \<Rightarrow> go_context \<Rightarrow> event \<Rightarrow> error option \<times> 'i"

definition event_RunID :: "event \<Rightarrow> string" where
  "event_RunID e =
     (case e of
        ToolStart r _ _ \<Rightarrow> r
      | ToolEnd r _ _ _ \<Rightarrow> r
      | Workflow r _ _ \<Rightarrow> r
      | ChildRunLinked r _ _ _ \<Rightarrow> r
      | UsageEvent r _ _ _ _ \<Rightarrow> r
      | OtherEvent r \<Rightarrow> r)"

definition word_arg :: "go_int \<Rightarrow> arg" where
  "word_arg w = Num (sint w)"

definition MeteringSink_Send ::
  "'i sink \<Rightarrow> Meter option \<Rightarrow> go_context \<Rightarrow> event \<Rightarrow> state \<times> 'i
     \<Rightarrow> error option \<times> state \<times> 'i" where
  "MeteringSink_Send Inner sink_Meter ctx ev si =
     (case si of (s, i) \<Rightarrow>
       (case sink_Meter of
          None \<Rightarrow> (case Inner i ctx ev of (r, i1) \<Rightarrow> (r, s, i1))
        | Some m \<Rightarrow>
            (let s1 =
               (case ev of
                  ToolStart r toolName toolCallID \<Rightarrow>
                    Debug_log (logger m) ''tool start: %s (call_id=%s)''
                      [Str toolName, Str toolCallID] s
                | ToolEnd r toolName toolCallID dur \<Rightarrow>
                    Debug_log (logger m) ''tool end: %s (call_id=%s, duration=%s)''
                      [Str toolName, Str toolCallID, Str dur] s
                | Workflow r phase status \<Rightarrow>
                    (let s0 = Debug_log (logger m) ''workflow phase: %s (status=%s)''
                                [Str phase, Str status] s
                     in if phase = ''completed'' \<or> phase = ''failed'' \<or> phase = ''canceled''
                        then UnregisterTrace m (event_RunID ev) s0
                        else s0)
                | ChildRunLinked r childAgentID childRunID toolCallID \<Rightarrow>
                    (let s0 = Debug_log (logger m)
                                ''child run linked: agent=%s run=%s (parent_call=%s)''
                                [Str childAgentID, Str childRunID, Str toolCallID] s
                     in (case GetTraceContext ctx of
                           None \<Rightarrow> s0
                         | Some tc \<Rightarrow>
                             Debug_log (logger m)
                               ''pre-registered child trace: child_run=%s trace=%s (parent_run=%s)''
                               [Str childRunID, Str (TraceID tc), Str (event_RunID ev)]
                               (RegisterTrace m childRunID (TraceID tc) s0)))
                | UsageEvent r mdl inp outp tot \<Rightarrow>
                    Debug_log (logger m) ''usage: model=%s input=%d output=%d total=%d''
                      [Str mdl, word_arg inp, word_arg outp, word_arg tot] s
                | OtherEvent r \<Rightarrow> s)
             in (case Inner i ctx ev of (r, i1) \<Rightarrow> (r, s1, i1)))))"

section \<open>version.go\<close>

definition middlewareName :: string where
  "middlewareName = ''goa-ai-revenium''"

definition middlewareVersion :: string where
  "middlewareVersion = ''0.1.0''"

definition middlewareSource :: string where
  "middlewareSource = middlewareName @ ''/'' @ middlewareVersion"

section \<open>metering.go: the dispatcher\<close>

definition meteringPath :: string where
  "meteringPath = ''/meter/v2/ai/completions''"

definition SendAsync :: "Meter \<Rightarrow> MeteringPayload \<Rightarrow> state \<Rightarrow> state" where
  "SendAsync m payload s =
     (let p1 = payload\<lparr>middlewareSource := middlewareSource\<rparr>;
          p2 = (if environment p1 = '''' then p1\<lparr>environment := Environment (cfg m)\<rparr> else p1);
          p3 = (if organizationName p2 = ''''
                then p2\<lparr>organizationName := OrganizationName (cfg m)\<rparr> else p2);
          p4 = (if subscriptionId p3 = ''''
                then p3\<lparr>subscriptionId := SubscriptionID (cfg m)\<rparr> else p3);
          p5 = (if productName p4 = '''' then p4\<lparr>productName := ProductName (cfg m)\<rparr> else p4);
          p6 = (if subscriber p5 = None \<and> Subscriber (cfg m) \<noteq> None
                then p5\<lparr>subscriber := Subscriber (cfg m)\<rparr> else p5)
      in s\<lparr>wg := wg s + 1, spawned := spawned s @ [p6]\<rparr>)"

text \<open>
  What one delivery meets outside the package: the JSON encoder, the outcome of the
  \<open>k\<close>-th call of \<open>send\<close> (counted from 0), whether the \<open>select\<close> before
  attempt \<open>k\<close> takes \<open>ctx.Done()\<close> rather than the timer, and \<open>ctx.Err()\<close>.
\<close>

datatype send_result =
    NewRequestFailed error
  | DoFailed error
  | Responded int string

record delivery =
  Marshal :: "MeteringPayload \<Rightarrow> error + string"
  attempt_result :: "nat \<Rightarrow> send_result"
  ctx_Done :: "nat \<Rightarrow> bool"
  ctx_Err :: error

definition send ::
  "Meter \<Rightarrow> delivery \<Rightarrow> string \<Rightarrow> string \<Rightarrow> nat \<Rightarrow> state \<Rightarrow> error option \<times> state" where
  "send m d url body k s =
     (let s1 = s\<lparr>io := io s @ [Attempt url body]\<rparr>
      in case attempt_result d k of
           NewRequestFailed e \<Rightarrow> (Some (newNetworkError ''failed to create request'' (Some e)), s1)
         | DoFailed e \<Rightarrow> (Some (newNetworkError ''request failed'' (Some e)), s1)
         | Responded code respBody \<Rightarrow>
             if code \<ge> 200 \<and> code < 300 then (None, s1)
             else (Some (newMeteringError ''unexpected status code: %d'' [Num code] None),
                   Debug_log (logger m) ''metering API response (%d): %s''
                     [Num code, Str respBody] s1))"

definition Second :: duration where
  "Second = 1000000000"

definition maxRetries :: nat where
  "maxRetries = 3"

function retry_loop ::
  "Meter \<Rightarrow> delivery \<Rightarrow> MeteringPayload \<Rightarrow> string \<Rightarrow> string \<Rightarrow> nat \<Rightarrow> duration
     \<Rightarrow> error option \<Rightarrow> state \<Rightarrow> error option \<times> state" where
  "retry_loop m d payload url body attempt backoff err s =
     (if attempt \<le> maxRetries then
        (let s1 = (if attempt > 0
                   then Debug_log (logger m) ''retrying metering request (attempt %d/%d)''
                          [Num (int attempt), Num (int maxRetries)] s
                   else s)
         in if attempt > 0 \<and> ctx_Done d attempt
            then (Some (newNetworkError ''context canceled during retry'' (Some (ctx_Err d))), s1)
            else
              (let s2 = (if attempt > 0 then s1\<lparr>io := io s1 @ [Sleep backoff]\<rparr> else s1);
                   backoff1 = (if attempt > 0 then backoff * 2 else backoff)
               in case send m d url body attempt s2 of
                    (None, s3) \<Rightarrow>
                      (None,
                       Debug_log (logger m)
                         ''metering payload sent successfully (model=%s, tokens=%d+%d)''
                         [Str (model payload), word_arg (inputTokenCount payload),
                          word_arg (outputTokenCount payload)] s3)
                  | (Some e, s3) \<Rightarrow>
                      retry_loop m d payload url body (attempt + 1) backoff1 (Some e)
                        (Warn_log (logger m) ''metering request failed (attempt %d/%d): %v''
                           [Num (int attempt + 1), Num (int maxRetries + 1), Err e] s3)))
      else (err, s))"
  by pat_completeness auto
termination
  by (relation "measure (\<lambda>(m, d, payload, url, body, attempt, backoff, err, s).
        Suc maxRetries - attempt)") auto

definition sendWithRetry ::
  "Meter \<Rightarrow> delivery \<Rightarrow> MeteringPayload \<Rightarrow> state \<Rightarrow> error option \<times> state" where
  "sendWithRetry m d payload s =
     (case Marshal d payload of
        Inl err \<Rightarrow> (Some (newMeteringError ''failed to marshal payload'' [] (Some err)), s)
      | Inr body \<Rightarrow>
          (let s1 = Debug_log (logger m) ''metering payload: %s'' [Str body] s;
               url = BaseURL (cfg m) @ meteringPath;
               backoff = Second
           in retry_loop m d payload url body 0 backoff None s1))"

text \<open>The body of the goroutine that \<open>SendAsync\<close> starts.\<close>

definition SendAsync_goroutine :: "Meter \<Rightarrow> delivery \<Rightarrow> MeteringPayload \<Rightarrow> state \<Rightarrow> state" where
  "SendAsync_goroutine m d payload s =
     (case sendWithRetry m d payload s of
        (err, s1) \<Rightarrow>
          (let s2 = (case err of
                       None \<Rightarrow> s1
                     | Some e \<Rightarrow>
                         Error_log (logger m) ''failed to send metering payload: %v'' [Err e] s1)
           in s2\<lparr>wg := wg s2 - 1\<rparr>))"

section \<open>model\_client.go\<close>

text \<open>
  Outside the package: \<open>Time.UTC().Format(iso8601)\<close> and \<open>json.Marshal\<close> of
  the input messages (pairs of role and content).
\<close>

record library =
  Format_iso8601 :: "time \<Rightarrow> string"
  Marshal_inputMsgs :: "(string \<times> string) list \<Rightarrow> error + string"

text \<open>\<open>Duration.Milliseconds\<close>: integer division that truncates towards zero.\<close>

definition Milliseconds :: "int \<Rightarrow> int" where
  "Milliseconds d = (if d < 0 then - ((- d) div 1000000) else d div 1000000)"

definition ConversationRoleSystem :: string where
  "ConversationRoleSystem = ''system''"

fun Join :: "string list \<Rightarrow> string \<Rightarrow> string" where
  "Join [] sep = ''''"
| "Join [x] sep = x"
| "Join (x # y # ys) sep = x @ sep @ Join (y # ys) sep"

fun text_parts :: "Part list \<Rightarrow> string" where
  "text_parts [] = ''''"
| "text_parts (TextPart t # ps) = t @ text_parts ps"
| "text_parts (OtherPart # ps) = text_parts ps"

definition extractMessageText :: "Message \<Rightarrow> string" where
  "extractMessageText msg = text_parts (Parts msg)"

text \<open>The first loop of \<open>populatePromptFields\<close>: system parts and input messages.\<close>

fun split_messages :: "Message list \<Rightarrow> string list \<times> (string \<times> string) list" where
  "split_messages [] = ([], [])"
| "split_messages (msg # msgs) =
     (let txt = extractMessageText msg; (systemParts, inputMsgs) = split_messages msgs
      in if txt = '''' then (systemParts, inputMsgs)
         else if Role msg = ConversationRoleSystem then (txt # systemParts, inputMsgs)
         else (systemParts, (Role msg, txt) # inputMsgs))"

definition populatePromptFields ::
  "library \<Rightarrow> MeteringPayload \<Rightarrow> Request \<Rightarrow> Message list \<Rightarrow> MeteringPayload" where
  "populatePromptFields lib payload req responseContent =
     (let (systemParts, inputMsgs) = split_messages (Messages req);
          p1 = (if length systemParts > 0
                then payload\<lparr>systemPrompt := Join systemParts ''\<newline>''\<rparr> else payload);
          p2 = (if length inputMsgs > 0
                then (case Marshal_inputMsgs lib inputMsgs of
                        Inr data \<Rightarrow> p1\<lparr>inputMessages := data\<rparr>
                      | Inl e \<Rightarrow> p1)
                else p1);
          p3 = (if length responseContent > 0
                then (let parts = filter (\<lambda>t. t \<noteq> '''') (map extractMessageText responseContent)
                      in if length parts > 0
                         then p2\<lparr>outputResponse := Join parts ''\<newline>''\<rparr> else p2)
                else p2)
      in p3)"

record meteringClient =
  c_meter :: Meter
  modelID :: string
  agentID :: string
  c_provider :: string
  capturePrompts :: bool

definition resolveModel :: "meteringClient \<Rightarrow> Request \<Rightarrow> string" where
  "resolveModel c req = (if Model req \<noteq> '''' then Model req else modelID c)"

text \<open>
  A call either returns or panics. The inner client is the host's: from its own
  state \<open>'c\<close> it gives the pair (response, error) of Go and its new state.
\<close>

datatype 'a outcome = Returns 'a | Panics string

type_synonym 'c client = "'c \<Rightarrow> go_context \<Rightarrow> Request \<Rightarrow> (Response option \<times> error option) \<times> 'c"

definition set_trace_fields :: "go_context \<Rightarrow> MeteringPayload \<Rightarrow> MeteringPayload" where
  "set_trace_fields ctx payload =
     (case GetTraceContext ctx of
        None \<Rightarrow> payload
      | Some tc \<Rightarrow> payload\<lparr>traceId := TraceID tc, traceName := TraceName tc,
                           traceType := TraceType tc, transactionId := TransactionID tc,
                           parentTransactionId := ParentTxnID tc\<rparr>)"

text \<open>\<open>start\<close> and \<open>end\<close> are the two readings of \<open>time.Now()\<close>.\<close>

definition Complete ::
  "'c client \<Rightarrow> library \<Rightarrow> meteringClient \<Rightarrow> go_context \<Rightarrow> Request \<Rightarrow> time \<Rightarrow> time
     \<Rightarrow> state \<times> 'c \<Rightarrow> (Response option \<times> error option) outcome \<times> state \<times> 'c" where
  "Complete inner lib c ctx req start end' si =
     (case si of (s, i) \<Rightarrow>
       (case inner i ctx req of ((resp, err), i1) \<Rightarrow>
          (let elapsed = end' - start
           in if err \<noteq> None then (Returns (None, err), s, i1)
              else
                (case resp of
                   None \<Rightarrow> (Panics ''runtime error: invalid memory address or nil pointer dereference'',
                            s, i1)
                 | Some r \<Rightarrow>
                     (let payload =
                            \<lparr>model = resolveModel c req,
                             inputTokenCount = InputTokens (Usage r),
                             outputTokenCount = OutputTokens (Usage r),
                             totalTokenCount = InputTokens (Usage r) + OutputTokens (Usage r),
                             stopReason = MapStopReason (StopReason r),
                             requestTime = Format_iso8601 lib start,
                             completionStartTime = Format_iso8601 lib start,
                             responseTime = Format_iso8601 lib end',
                             requestDuration = Milliseconds elapsed,
                             provider = c_provider c,
                             isStreamed = False,
                             billingUnit = ''PER_TOKEN'',
                             transactionId = '''', traceId = '''', traceName = '''',
                             traceType = '''', parentTransactionId = '''',
                             agent = agentID c,
                             squadId = '''', squadName = '''', organizationName = '''',
                             environment = '''', middlewareSource = '''',
                             cacheReadTokenCount = CacheReadTokens (Usage r),
                             cacheCreationTokenCount = CacheWriteTokens (Usage r),
                             systemPrompt = '''', inputMessages = '''', outputResponse = '''',
                             promptsTruncated = False, subscriptionId = '''',
                             productName = '''', subscriber = None\<rparr>;
                          payload1 = set_trace_fields ctx payload;
                          payload2 = (if capturePrompts c
                                      then populatePromptFields lib payload1 req (Content r)
                                      else payload1)
                      in (Returns (Some r, None), SendAsync (c_meter c) payload2 s, i1))))))"

record meteringStreamer = meteringClient +
  s_req :: Request
  s_start :: time
  s_ctx :: go_context
  usage :: TokenUsage
  s_stopReason :: string
  responseText :: string

text \<open>
  The inner client's \<open>Stream\<close> gives an error or a stream; the stream itself is part
  of the inner state, read by the inner \<open>Recv\<close> and \<open>Close\<close>.
\<close>

definition Stream ::
  "('c \<Rightarrow> go_context \<Rightarrow> Request \<Rightarrow> error option \<times> 'c) \<Rightarrow> meteringClient \<Rightarrow> go_context
     \<Rightarrow> Request \<Rightarrow> time \<Rightarrow> 'c \<Rightarrow> (meteringStreamer option \<times> error option) \<times> 'c" where
  "Stream inner c ctx req start i =
     (case inner i ctx req of (err, i1) \<Rightarrow>
        if err \<noteq> None then ((None, err), i1)
        else ((Some \<lparr>c_meter = c_meter c, modelID = resolveModel c req, agentID = agentID c,
                      c_provider = c_provider c, capturePrompts = capturePrompts c,
                      s_req = req, s_start = start, s_ctx = ctx,
                      usage = \<lparr>InputTokens = 0, OutputTokens = 0, TotalTokens = 0,
                               CacheReadTokens = 0, CacheWriteTokens = 0\<rparr>,
                      s_stopReason = '''', responseText = ''''\<rparr>, None), i1))"

definition Recv ::
  "('c \<Rightarrow> (Chunk \<times> error option) \<times> 'c) \<Rightarrow> meteringStreamer \<Rightarrow> 'c
     \<Rightarrow> (Chunk \<times> error option) \<times> meteringStreamer \<times> 'c" where
  "Recv inner st i =
     (case inner i of ((chunk, err), i1) \<Rightarrow>
        (let st1 = (case UsageDelta chunk of
                      None \<Rightarrow> st
                    | Some delta \<Rightarrow>
                        st\<lparr>usage := (usage st)
                             \<lparr>InputTokens := InputTokens (usage st) + InputTokens delta,
                              OutputTokens := OutputTokens (usage st) + OutputTokens delta,
                              TotalTokens := TotalTokens (usage st) + TotalTokens delta\<rparr>\<rparr>);
             st2 = (if chunk_StopReason chunk \<noteq> ''''
                    then st1\<lparr>s_stopReason := chunk_StopReason chunk\<rparr> else st1);
             st3 = (if capturePrompts st2 \<and> chunk_Message chunk \<noteq> None
                    then st2\<lparr>responseText :=
                               responseText st2 @ extractMessageText (the (chunk_Message chunk))\<rparr>
                    else st2)
         in ((chunk, err), st3, i1)))"

definition Close ::
  "('c \<Rightarrow> error option \<times> 'c) \<Rightarrow> library \<Rightarrow> meteringStreamer \<Rightarrow> time \<Rightarrow> state \<times> 'c
     \<Rightarrow> error option \<times> state \<times> 'c" where
  "Close inner lib st end' si =
     (case si of (s, i) \<Rightarrow>
       (case inner i of (err, i1) \<Rightarrow>
          (let elapsed = end' - s_start st;
               s1 =
                 (if 0 <s InputTokens (usage st) \<or> 0 <s OutputTokens (usage st)
                  then
                    (let payload =
                           \<lparr>model = modelID st,
                            inputTokenCount = InputTokens (usage st),
                            outputTokenCount = OutputTokens (usage st),
                            totalTokenCount = InputTokens (usage st) + OutputTokens (usage st),
                            stopReason = MapStopReason (s_stopReason st),
                            requestTime = Format_iso8601 lib (s_start st),
                            completionStartTime = Format_iso8601 lib (s_start st),
                            responseTime = Format_iso8601 lib end',
                            requestDuration = Milliseconds elapsed,
                            provider = c_provider st,
                            isStreamed = True,
                            billingUnit = ''PER_TOKEN'',
                            transactionId = '''', traceId = '''', traceName = '''',
                            traceType = '''', parentTransactionId = '''',
                            agent = agentID st,
                            squadId = '''', squadName = '''', organizationName = '''',
                            environment = '''', middlewareSource = '''',
                            cacheReadTokenCount = 0, cacheCreationTokenCount = 0,
                            systemPrompt = '''', inputMessages = '''', outputResponse = '''',
                            promptsTruncated = False, subscriptionId = '''',
                            productName = '''', subscriber = None\<rparr>;
                         payload1 = set_trace_fields (s_ctx st) payload;
                         payload2 = (if capturePrompts st
                                     then (populatePromptFields lib payload1 (s_req st) [])
                                            \<lparr>outputResponse := responseText st\<rparr>
                                     else payload1)
                     in SendAsync (c_meter st) payload2 s)
                  else s)
           in (err, s1, i1))))"

text \<open>
  The caller's side of a stream: \<open>Recv\<close> called \<open>n\<close> times in a row, and an
  inner stream that hands out a given list of results, then \<open>io.EOF\<close>.
\<close>

fun Recv_times ::
  "('c \<Rightarrow> (Chunk \<times> error option) \<times> 'c) \<Rightarrow> nat \<Rightarrow> meteringStreamer \<Rightarrow> 'c
     \<Rightarrow> meteringStreamer \<times> 'c" where
  "Recv_times inner 0 st i = (st, i)"
| "Recv_times inner (Suc n) st i =
     (case Recv inner st i of (_, st1, i1) \<Rightarrow> Recv_times inner n st1 i1)"

definition replay :: "(Chunk \<times> error option) list \<Rightarrow> (Chunk \<times> error option) \<times> (Chunk \<times> error option) list" where
  "replay rs =
     (case rs of
        [] \<Rightarrow> ((\<lparr>UsageDelta = None, chunk_StopReason = '''', chunk_Message = None\<rparr>,
                Some (Foreign ''EOF'')), [])
      | r # rest \<Rightarrow> (r, rest))"

section \<open>The outcomes of one attempt\<close>

text \<open>The results of the transport on which \<open>send\<close> returns \<open>nil\<close>: a 2xx status.\<close>

definition delivered :: "send_result \<Rightarrow> bool" where
  "delivered r = (case r of Responded code respBody \<Rightarrow> code \<ge> 200 \<and> code < 300 | _ \<Rightarrow> False)"

section \<open>Concrete inputs\<close>

text \<open>
  The scenario of the README: run \<open>R1\<close> of agent \<open>demo.assistant\<close> with trace
  \<open>T1\<close> links the child run \<open>R2\<close> of agent \<open>weather.forecaster\<close>.
\<close>

definition demo_uuid :: "nat \<Rightarrow> string" where
  "demo_uuid n = CHR ''u'' # replicate n (CHR ''0'')"

definition demo_config :: Config where
  "demo_config = \<lparr>APIKey = ''hak_k'', BaseURL = ''https://api.revenium.ai'', cfg_Squad = '''',
     Environment = ''test'', OrganizationName = '''', SubscriptionID = '''', ProductName = '''',
     Subscriber = None, Debug = False\<rparr>"

definition demo_meter :: Meter where
  "demo_meter = \<lparr>cfg = demo_config, logger = \<lparr>debug = False\<rparr>\<rparr>"

definition demo_planner :: MeteringPlanner where
  "demo_planner = \<lparr>p_Meter = demo_meter, AgentID = ''weather.forecaster'', Provider = '''',
     ModelName = '''', CapturePrompts = False\<rparr>"

definition state0 :: state where
  "state0 = \<lparr>traces = Map.empty, wg = 0, logged = [], spawned = [], io = [], uuids = 0\<rparr>"

definition state_R1 :: state where
  "state_R1 = state0\<lparr>traces := [''R1'' \<mapsto> ''T1'']\<rparr>"

definition state_R1_empty_id :: state where
  "state_R1_empty_id = state0\<lparr>traces := [''R1'' \<mapsto> '''']\<rparr>"

definition no_trace :: go_context where
  "no_trace = \<lparr>trace_value = None\<rparr>"

definition trace_T1 :: TraceContext where
  "trace_T1 = \<lparr>TraceID = ''T1'', TraceName = ''chat'', TraceType = ''agent'',
     TransactionID = ''R1'', ParentTxnID = '''', Squad = ''demo''\<rparr>"

definition ctx_T1 :: go_context where
  "ctx_T1 = \<lparr>trace_value = Some trace_T1\<rparr>"

definition run_R2 :: run_Context where
  "run_R2 = \<lparr>RunID = ''R2'', ParentRunID = ''R1''\<rparr>"

definition link_R2 :: event where
  "link_R2 = ChildRunLinked ''R1'' ''weather.forecaster'' ''R2'' ''call-1''"

definition counting_sink :: "nat sink" where
  "counting_sink i ctx ev = (None, Suc i)"

definition demo_library :: library where
  "demo_library = \<lparr>Format_iso8601 = (\<lambda>t. ''2006-01-02T15:04:05Z''),
     Marshal_inputMsgs = (\<lambda>ms. Inr ''[]'')\<rparr>"

definition demo_client :: meteringClient where
  "demo_client = \<lparr>c_meter = demo_meter, modelID = ''openai'', agentID = ''weather.forecaster'',
     c_provider = ''OpenAI'', capturePrompts = False\<rparr>"

definition demo_request :: Request where
  "demo_request = \<lparr>Model = ''gpt-4o'', Messages = []\<rparr>"

definition demo_response :: Response where
  "demo_response = \<lparr>Usage = \<lparr>InputTokens = 10, OutputTokens = 8, TotalTokens = 25,
       CacheReadTokens = 4, CacheWriteTokens = 3\<rparr>,
     StopReason = ''stop'', Content = []\<rparr>"

definition answering_client :: "nat client" where
  "answering_client i ctx req = ((Some demo_response, None), Suc i)"

definition failing_client :: "nat client" where
  "failing_client i ctx req = ((None, Some (Foreign ''rate limited'')), Suc i)"

definition silent_client :: "nat client" where
  "silent_client i ctx req = ((None, None), Suc i)"

definition demo_payload :: MeteringPayload where
  "demo_payload =
     \<lparr>model = ''gpt-4o'', inputTokenCount = 10, outputTokenCount = 8, totalTokenCount = 18,
      stopReason = ''END'', requestTime = '''', completionStartTime = '''', responseTime = '''',
      requestDuration = 0, provider = ''OpenAI'', isStreamed = False, billingUnit = ''PER_TOKEN'',
      transactionId = ''R2'', traceId = ''T1'', traceName = '''', traceType = ''agent'',
      parentTransactionId = ''R1'', agent = ''weather.forecaster'', squadId = '''',
      squadName = '''', organizationName = '''', environment = '''', middlewareSource = '''',
      cacheReadTokenCount = 0, cacheCreationTokenCount = 0, systemPrompt = '''',
      inputMessages = '''', outputResponse = '''', promptsTruncated = False,
      subscriptionId = '''', productName = '''', subscriber = None\<rparr>"

definition always_503 :: delivery where
  "always_503 = \<lparr>Marshal = (\<lambda>p. Inr ''{}''), attempt_result = (\<lambda>k. Responded 503 ''''),
     ctx_Done = (\<lambda>k. False), ctx_Err = Foreign ''context deadline exceeded''\<rparr>"

definition second_attempt_ok :: delivery where
  "second_attempt_ok = \<lparr>Marshal = (\<lambda>p. Inr ''{}''),
     attempt_result = (\<lambda>k. if k = 1 then Responded 200 ''''
                             else DoFailed (Foreign ''connection refused'')),
     ctx_Done = (\<lambda>k. False), ctx_Err = Foreign ''context deadline exceeded''\<rparr>"

definition unencodable :: delivery where
  "unencodable = \<lparr>Marshal = (\<lambda>p. Inl (Foreign ''json: unsupported value'')),
     attempt_result = (\<lambda>k. Responded 200 ''''),
     ctx_Done = (\<lambda>k. False), ctx_Err = Foreign ''context deadline exceeded''\<rparr>"

definition delta_chunk :: "go_int \<Rightarrow> go_int \<Rightarrow> string \<Rightarrow> Chunk \<times> error option" where
  "delta_chunk a b r =
     (\<lparr>UsageDelta = Some \<lparr>InputTokens = a, OutputTokens = b, TotalTokens = a + b,
                            CacheReadTokens = 0, CacheWriteTokens = 0\<rparr>,
       chunk_StopReason = r, chunk_Message = None\<rparr>, None)"

definition three_chunks :: "(Chunk \<times> error option) list" where
  "three_chunks = [delta_chunk 10 0 '''', delta_chunk 0 5 ''length'', delta_chunk 0 3 '''']"

definition negative_chunk :: "(Chunk \<times> error option) list" where
  "negative_chunk = [delta_chunk (- 5) 0 ''stop'']"

definition opening_stream :: "nat \<Rightarrow> go_context \<Rightarrow> Request \<Rightarrow> error option \<times> nat" where
  "opening_stream i ctx req = (None, Suc i)"

definition closing_stream :: "nat \<Rightarrow> error option \<times> nat" where
  "closing_stream i = (None, Suc i)"

definition fresh_streamer :: meteringStreamer where
  "fresh_streamer =
     \<lparr>c_meter = demo_meter, modelID = ''gpt-4o'', agentID = ''weather.forecaster'',
      c_provider = ''OpenAI'', capturePrompts = False,
      s_req = demo_request, s_start = 0, s_ctx = ctx_T1,
      usage = \<lparr>InputTokens = 0, OutputTokens = 0, TotalTokens = 0,
               CacheReadTokens = 0, CacheWriteTokens = 0\<rparr>,
      s_stopReason = '''', responseText = ''''\<rparr>"

section \<open>Properties\<close>

subsection \<open>How the operations touch the state\<close>

declare retry_loop.simps [simp del]

lemma Debug_log_fields [simp]:
  "traces (Debug_log l msg as s) = traces s"
  "wg (Debug_log l msg as s) = wg s"
  "spawned (Debug_log l msg as s) = spawned s"
  "io (Debug_log l msg as s) = io s"
  "uuids (Debug_log l msg as s) = uuids s"
  by (simp_all add: Debug_log_def)

lemma Warn_log_fields [simp]:
  "traces (Warn_log l msg as s) = traces s"
  "wg (Warn_log l msg as s) = wg s"
  "spawned (Warn_log l msg as s) = spawned s"
  "io (Warn_log l msg as s) = io s"
  "uuids (Warn_log l msg as s) = uuids s"
  "logged (Warn_log l msg as s) = logged s @ [Log WARN msg as]"
  by (simp_all add: Warn_log_def)

lemma Error_log_fields [simp]:
  "traces (Error_log l msg as s) = traces s"
  "wg (Error_log l msg as s) = wg s"
  "spawned (Error_log l msg as s) = spawned s"
  "io (Error_log l msg as s) = io s"
  "uuids (Error_log l msg as s) = uuids s"
  "logged (Error_log l msg as s) = logged s @ [Log ERROR msg as]"
  by (simp_all add: Error_log_def)

lemma RegisterTrace_fields [simp]:
  "traces (RegisterTrace m r t s) = (traces s)(r \<mapsto> t)"
  "wg (RegisterTrace m r t s) = wg s"
  "spawned (RegisterTrace m r t s) = spawned s"
  "io (RegisterTrace m r t s) = io s"
  "uuids (RegisterTrace m r t s) = uuids s"
  by (simp_all add: RegisterTrace_def)

lemma UnregisterTrace_fields [simp]:
  "traces (UnregisterTrace m r s) = (traces s)(r := None)"
  "wg (UnregisterTrace m r s) = wg s"
  "spawned (UnregisterTrace m r s) = spawned s"
  "io (UnregisterTrace m r s) = io s"
  "uuids (UnregisterTrace m r s) = uuids s"
  by (simp_all add: UnregisterTrace_def)

lemma SendAsync_fields [simp]:
  "traces (SendAsync m p s) = traces s"
  "logged (SendAsync m p s) = logged s"
  "io (SendAsync m p s) = io s"
  "uuids (SendAsync m p s) = uuids s"
  "wg (SendAsync m p s) = wg s + 1"
  by (simp_all add: SendAsync_def Let_def)

text \<open>\<open>SendAsync\<close> starts one goroutine; it fills tenant fields only.\<close>

lemma SendAsync_spawned:
  "\<exists>q. spawned (SendAsync m p s) = spawned s @ [q]
       \<and> inputTokenCount q = inputTokenCount p \<and> outputTokenCount q = outputTokenCount p
       \<and> totalTokenCount q = totalTokenCount p
       \<and> cacheReadTokenCount q = cacheReadTokenCount p
       \<and> cacheCreationTokenCount q = cacheCreationTokenCount p
       \<and> stopReason q = stopReason p \<and> isStreamed q = isStreamed p"
  by (simp add: SendAsync_def Let_def)

lemma set_trace_fields_tokens [simp]:
  "inputTokenCount (set_trace_fields ctx p) = inputTokenCount p"
  "outputTokenCount (set_trace_fields ctx p) = outputTokenCount p"
  "totalTokenCount (set_trace_fields ctx p) = totalTokenCount p"
  "cacheReadTokenCount (set_trace_fields ctx p) = cacheReadTokenCount p"
  "cacheCreationTokenCount (set_trace_fields ctx p) = cacheCreationTokenCount p"
  "stopReason (set_trace_fields ctx p) = stopReason p"
  "isStreamed (set_trace_fields ctx p) = isStreamed p"
  by (simp_all add: set_trace_fields_def split: option.splits)

lemma populatePromptFields_tokens [simp]:
  "inputTokenCount (populatePromptFields lib p req rc) = inputTokenCount p"
  "outputTokenCount (populatePromptFields lib p req rc) = outputTokenCount p"
  "totalTokenCount (populatePromptFields lib p req rc) = totalTokenCount p"
  "cacheReadTokenCount (populatePromptFields lib p req rc) = cacheReadTokenCount p"
  "cacheCreationTokenCount (populatePromptFields lib p req rc) = cacheCreationTokenCount p"
  "stopReason (populatePromptFields lib p req rc) = stopReason p"
  "isStreamed (populatePromptFields lib p req rc) = isStreamed p"
  by (simp_all add: populatePromptFields_def Let_def split: prod.splits sum.splits)

subsection \<open>Trace resolution\<close>

text \<open>The two branches of a child run that finds no usable trace context around it.\<close>

lemma child_hit:
  assumes "ParentRunID rc \<noteq> ''''" and "traces s (ParentRunID rc) = Some tid" and "tid \<noteq> ''''"
    and "GetTraceContext ctx = None \<or> TraceID (the (GetTraceContext ctx)) = ''''"
  shows "ensureTraceContext gen p ctx rc s =
     (ctx\<lparr>trace_value := Some \<lparr>TraceID = tid, TraceName = '''', TraceType = ''agent'',
                                  TransactionID = RunID rc, ParentTxnID = ParentRunID rc,
                                  Squad = ResolveSquad (cfg (p_Meter p)) (AgentID p)\<rparr>\<rparr>,
      RegisterTrace (p_Meter p) (RunID rc) tid s)"
  using assms
  by (auto simp: ensureTraceContext_def LookupTrace_def WithTraceContext_def GetTraceContext_def
      Let_def)

lemma child_miss:
  assumes "ParentRunID rc \<noteq> ''''" and "traces s (ParentRunID rc) = None"
    and "GetTraceContext ctx = None \<or> TraceID (the (GetTraceContext ctx)) = ''''"
    and "gen (uuids s) \<noteq> ''''"
  shows "ensureTraceContext gen p ctx rc s =
     (ctx\<lparr>trace_value := Some \<lparr>TraceID = gen (uuids s), TraceName = '''', TraceType = ''agent'',
                                  TransactionID = RunID rc, ParentTxnID = ParentRunID rc,
                                  Squad = ResolveSquad (cfg (p_Meter p)) (AgentID p)\<rparr>\<rparr>,
      RegisterTrace (p_Meter p) (RunID rc) (gen (uuids s))
        ((Warn_log (logger (p_Meter p))
            ''parent trace not found for run=%s parent=%s, generating new traceID''
            [Str (RunID rc), Str (ParentRunID rc)] s)\<lparr>uuids := Suc (uuids s)\<rparr>))"
  using assms
  by (auto simp: ensureTraceContext_def LookupTrace_def WithTraceContext_def GetTraceContext_def
      uuid_New_String_def Warn_log_def Let_def)

lemma logged_RegisterTrace:
  "logged (RegisterTrace m r t s) =
     logged s @ (if debug (logger m)
                 then [Log DEBUG ''registered trace: run=%s trace=%s'' [Str r, Str t]] else [])"
  by (simp add: RegisterTrace_def Debug_log_def)

text \<open>
  C1. A child run (\<open>ParentRunID \<noteq> ""\<close>) whose parent is registered and whose context has
  no trace context with a non-empty TraceID gets a TraceContext with the parent's registered
  TraceID and \<open>ParentTxnID = ParentRunID\<close>, and (RunID, that TraceID) is registered.
  This holds when the registered TraceID is not the empty string: \<open>WithTraceContext\<close>
  replaces an empty TraceID by a fresh UUID, so an empty registered ID is not inherited.
\<close>

theorem ensureTraceContext_child_inherits_parent:
  assumes "ParentRunID rc \<noteq> ''''"
    and "traces s (ParentRunID rc) = Some tid"
    and "tid \<noteq> ''''"
    and "GetTraceContext ctx = None \<or> TraceID (the (GetTraceContext ctx)) = ''''"
  shows "\<exists>tc. GetTraceContext (fst (ensureTraceContext gen p ctx rc s)) = Some tc
           \<and> TraceID tc = tid
           \<and> ParentTxnID tc = ParentRunID rc
           \<and> TransactionID tc = RunID rc
           \<and> traces (snd (ensureTraceContext gen p ctx rc s)) = (traces s)(RunID rc \<mapsto> tid)
           \<and> uuids (snd (ensureTraceContext gen p ctx rc s)) = uuids s"
  by (simp add: child_hit [OF assms] GetTraceContext_def)

theorem ensureTraceContext_child_inherits_parent_witness:
  "ParentRunID run_R2 \<noteq> '''' \<and> traces state_R1 (ParentRunID run_R2) = Some ''T1''
   \<and> GetTraceContext no_trace = None
   \<and> map_option TraceID
       (GetTraceContext (fst (ensureTraceContext demo_uuid demo_planner no_trace run_R2 state_R1)))
       = Some ''T1''
   \<and> map_option ParentTxnID
       (GetTraceContext (fst (ensureTraceContext demo_uuid demo_planner no_trace run_R2 state_R1)))
       = Some ''R1''
   \<and> traces (snd (ensureTraceContext demo_uuid demo_planner no_trace run_R2 state_R1)) ''R2''
       = Some ''T1''"
proof -
  have h1: "ParentRunID run_R2 \<noteq> ''''" by (simp add: run_R2_def)
  have h2: "traces state_R1 (ParentRunID run_R2) = Some ''T1''"
    by (simp add: run_R2_def state_R1_def state0_def)
  have h3: "''T1'' \<noteq> ''''" by simp
  have h4: "GetTraceContext no_trace = None \<or> TraceID (the (GetTraceContext no_trace)) = ''''"
    by (simp add: GetTraceContext_def no_trace_def)
  from ensureTraceContext_child_inherits_parent [OF h1 h2 h3 h4, of demo_uuid demo_planner]
  show ?thesis using h1 h2 by (auto simp: GetTraceContext_def no_trace_def run_R2_def)
qed

text \<open>
  C1 as stated fails when the parent's registered TraceID is the empty string: the
  registry then holds (R2, "") and the context carries a fresh UUID.
\<close>

theorem ensureTraceContext_empty_parent_id_counterexample:
  "ParentRunID run_R2 \<noteq> ''''
   \<and> traces state_R1_empty_id (ParentRunID run_R2) = Some ''''
   \<and> GetTraceContext no_trace = None
   \<and> map_option TraceID
       (GetTraceContext
          (fst (ensureTraceContext demo_uuid demo_planner no_trace run_R2 state_R1_empty_id)))
       = Some ''u''
   \<and> traces (snd (ensureTraceContext demo_uuid demo_planner no_trace run_R2 state_R1_empty_id))
       ''R2'' = Some ''''"
  by (simp add: ensureTraceContext_def LookupTrace_def WithTraceContext_def GetTraceContext_def
      uuid_New_String_def Let_def run_R2_def state_R1_empty_id_def state0_def no_trace_def
      demo_uuid_def)

text \<open>
  C2. A child run whose parent is not in the registry (and with no usable trace context
  around it) still resolves: the function returns a context, a fresh TraceID is minted,
  a warning is logged, \<open>ParentTxnID = ParentRunID\<close>, and (RunID, new TraceID) is
  registered. The generator's UUID strings are not empty.
\<close>

theorem ensureTraceContext_child_fallback:
  assumes "ParentRunID rc \<noteq> ''''"
    and "traces s (ParentRunID rc) = None"
    and "GetTraceContext ctx = None \<or> TraceID (the (GetTraceContext ctx)) = ''''"
    and "gen (uuids s) \<noteq> ''''"
  shows "\<exists>tc. GetTraceContext (fst (ensureTraceContext gen p ctx rc s)) = Some tc
           \<and> TraceID tc = gen (uuids s)
           \<and> ParentTxnID tc = ParentRunID rc
           \<and> TransactionID tc = RunID rc
           \<and> traces (snd (ensureTraceContext gen p ctx rc s))
               = (traces s)(RunID rc \<mapsto> gen (uuids s))
           \<and> uuids (snd (ensureTraceContext gen p ctx rc s)) = Suc (uuids s)
           \<and> logged (snd (ensureTraceContext gen p ctx rc s))
               = logged s
                 @ [Log WARN ''parent trace not found for run=%s parent=%s, generating new traceID''
                      [Str (RunID rc), Str (ParentRunID rc)]]
                 @ (if debug (logger (p_Meter p))
                    then [Log DEBUG ''registered trace: run=%s trace=%s''
                            [Str (RunID rc), Str (gen (uuids s))]]
                    else [])"
  using assms by (simp add: child_miss GetTraceContext_def logged_RegisterTrace)

theorem ensureTraceContext_child_fallback_witness:
  "ParentRunID run_R2 \<noteq> '''' \<and> traces state0 (ParentRunID run_R2) = None
   \<and> GetTraceContext no_trace = None \<and> demo_uuid (uuids state0) \<noteq> ''''
   \<and> map_option TraceID
       (GetTraceContext (fst (ensureTraceContext demo_uuid demo_planner no_trace run_R2 state0)))
       = Some ''u''
   \<and> traces (snd (ensureTraceContext demo_uuid demo_planner no_trace run_R2 state0)) ''R2''
       = Some ''u''
   \<and> logged (snd (ensureTraceContext demo_uuid demo_planner no_trace run_R2 state0))
       = [Log WARN ''parent trace not found for run=%s parent=%s, generating new traceID''
            [Str ''R2'', Str ''R1'']]"
proof -
  have h1: "ParentRunID run_R2 \<noteq> ''''" by (simp add: run_R2_def)
  have h2: "traces state0 (ParentRunID run_R2) = None" by (simp add: state0_def)
  have h3: "GetTraceContext no_trace = None \<or> TraceID (the (GetTraceContext no_trace)) = ''''"
    by (simp add: GetTraceContext_def no_trace_def)
  have h4: "demo_uuid (uuids state0) \<noteq> ''''" by (simp add: demo_uuid_def)
  from ensureTraceContext_child_fallback
    [where rc = run_R2 and s = state0 and ctx = no_trace and gen = demo_uuid and p = demo_planner]
    h1 h2 h3 h4
  show ?thesis
    by (auto simp: GetTraceContext_def no_trace_def run_R2_def state0_def demo_uuid_def
        demo_planner_def demo_meter_def)
qed

subsection \<open>The event sink\<close>

text \<open>
  C3. With a meter configured, \<open>Send\<close> changes the registry on two kinds of event only:
  a child-run link registers (childRunID, TraceID of the trace context around the call),
  and a workflow event whose phase is \<open>completed\<close>, \<open>failed\<close> or \<open>canceled\<close>
  removes the entry of the run that owns the event. Every other event, and a workflow
  event of another phase, leaves the registry as it is. (A child-run link under a context
  without trace context registers nothing: that is C10.)
\<close>

theorem MeteringSink_Send_registry:
  "traces (fst (snd (MeteringSink_Send Inner (Some m) ctx ev (s, i)))) =
     (case ev of
        ChildRunLinked r childAgentID childRunID toolCallID \<Rightarrow>
          (case GetTraceContext ctx of
             Some tc \<Rightarrow> (traces s)(childRunID \<mapsto> TraceID tc)
           | None \<Rightarrow> traces s)
      | Workflow r phase status \<Rightarrow>
          (if phase = ''completed'' \<or> phase = ''failed'' \<or> phase = ''canceled''
           then (traces s)(r := None) else traces s)
      | ToolStart r toolName toolCallID \<Rightarrow> traces s
      | ToolEnd r toolName toolCallID dur \<Rightarrow> traces s
      | UsageEvent r mdl inp outp tot \<Rightarrow> traces s
      | OtherEvent r \<Rightarrow> traces s)"
  by (simp add: MeteringSink_Send_def event_RunID_def Let_def
      split: event.splits option.splits prod.splits)

subsection \<open>What the decorators return\<close>

text \<open>
  C4. \<open>Send\<close> returns what the inner sink returns, with or without a meter. For
  \<open>Complete\<close>, the outcome is fixed by what the inner client returns, for every pair
  (response, error) of Go: on an error it returns that error and a nil response; on a
  response and no error it returns that response and no error; on a nil response and no
  error it does not return at all, since building the payload reads the usage of the nil
  response and panics, with nothing logged and no goroutine started. The inner client is
  called once, and the outcome of \<open>Complete\<close> does not depend on the state of the
  metering (registry, log, goroutines): the delivery runs in a goroutine of its own,
  whose failures are logged.
\<close>

theorem decorators_return_inner_result:
  "fst (MeteringSink_Send Inner mo ctx ev (s, j)) = fst (Inner j ctx ev)
   \<and> snd (snd (MeteringSink_Send Inner mo ctx ev (s, j))) = snd (Inner j ctx ev)
   \<and> fst (Complete inner lib c ctx req t0 t1 (s, i))
       = (case fst (inner i ctx req) of
            (resp, Some e) \<Rightarrow> Returns (None, Some e)
          | (Some r, None) \<Rightarrow> Returns (Some r, None)
          | (None, None) \<Rightarrow>
              Panics ''runtime error: invalid memory address or nil pointer dereference'')
   \<and> (inner i ctx req = ((resp, Some e), i1)
        \<longrightarrow> fst (Complete inner lib c ctx req t0 t1 (s, i)) = Returns (None, Some e))
   \<and> (inner i ctx req = ((Some r, None), i1)
        \<longrightarrow> fst (Complete inner lib c ctx req t0 t1 (s, i)) = Returns (Some r, None))
   \<and> (inner i ctx req = ((None, None), i1)
        \<longrightarrow> Complete inner lib c ctx req t0 t1 (s, i)
              = (Panics ''runtime error: invalid memory address or nil pointer dereference'',
                 s, i1))
   \<and> snd (snd (Complete inner lib c ctx req t0 t1 (s, i))) = snd (inner i ctx req)
   \<and> fst (Complete inner lib c ctx req t0 t1 (s, i))
       = fst (Complete inner lib c ctx req t0 t1 (s', i))"
proof (intro conjI impI)
  show "fst (MeteringSink_Send Inner mo ctx ev (s, j)) = fst (Inner j ctx ev)"
    by (simp add: MeteringSink_Send_def Let_def split: option.splits prod.splits)
  show "snd (snd (MeteringSink_Send Inner mo ctx ev (s, j))) = snd (Inner j ctx ev)"
    by (simp add: MeteringSink_Send_def Let_def split: option.splits prod.splits)
  show "fst (Complete inner lib c ctx req t0 t1 (s, i))
       = (case fst (inner i ctx req) of
            (resp, Some e) \<Rightarrow> Returns (None, Some e)
          | (Some r, None) \<Rightarrow> Returns (Some r, None)
          | (None, None) \<Rightarrow>
              Panics ''runtime error: invalid memory address or nil pointer dereference'')"
    by (simp add: Complete_def Let_def split: prod.splits option.splits)
  show "fst (Complete inner lib c ctx req t0 t1 (s, i)) = Returns (None, Some e)"
    if "inner i ctx req = ((resp, Some e), i1)"
    using that by (simp add: Complete_def)
  show "fst (Complete inner lib c ctx req t0 t1 (s, i)) = Returns (Some r, None)"
    if "inner i ctx req = ((Some r, None), i1)"
    using that by (simp add: Complete_def Let_def)
  show "Complete inner lib c ctx req t0 t1 (s, i)
              = (Panics ''runtime error: invalid memory address or nil pointer dereference'',
                 s, i1)"
    if "inner i ctx req = ((None, None), i1)"
    using that by (simp add: Complete_def)
  show "snd (snd (Complete inner lib c ctx req t0 t1 (s, i))) = snd (inner i ctx req)"
    by (simp add: Complete_def Let_def split: prod.splits option.splits)
  show "fst (Complete inner lib c ctx req t0 t1 (s, i))
       = fst (Complete inner lib c ctx req t0 t1 (s', i))"
    by (simp add: Complete_def Let_def split: prod.splits option.splits)
qed

theorem decorators_return_inner_result_witness:
  "failing_client 0 ctx_T1 demo_request = ((None, Some (Foreign ''rate limited'')), 1)
   \<and> fst (Complete failing_client demo_library demo_client ctx_T1 demo_request 0 5 (state0, 0))
       = Returns (None, Some (Foreign ''rate limited''))
   \<and> answering_client 0 ctx_T1 demo_request = ((Some demo_response, None), 1)
   \<and> fst (Complete answering_client demo_library demo_client ctx_T1 demo_request 0 5 (state0, 0))
       = Returns (Some demo_response, None)
   \<and> silent_client 0 ctx_T1 demo_request = ((None, None), 1)
   \<and> Complete silent_client demo_library demo_client ctx_T1 demo_request 0 5 (state0, 0)
       = (Panics ''runtime error: invalid memory address or nil pointer dereference'',
          state0, 1)
   \<and> fst (MeteringSink_Send counting_sink (Some demo_meter) ctx_T1 link_R2 (state0, 0)) = None"
proof -
  have h1: "failing_client 0 ctx_T1 demo_request = ((None, Some (Foreign ''rate limited'')), 1)"
    by (simp add: failing_client_def)
  have h2: "answering_client 0 ctx_T1 demo_request = ((Some demo_response, None), 1)"
    by (simp add: answering_client_def)
  have h3: "silent_client 0 ctx_T1 demo_request = ((None, None), 1)"
    by (simp add: silent_client_def)
  from decorators_return_inner_result
         [where inner = failing_client and i = 0 and ctx = ctx_T1 and req = demo_request
            and resp = None and e = "Foreign ''rate limited''" and ?i1.0 = 1
            and r = demo_response and s' = state0
            and lib = demo_library and c = demo_client and ?t0.0 = 0 and ?t1.0 = 5
            and s = state0 and Inner = counting_sink and mo = "Some demo_meter"
            and ev = link_R2 and j = 0]
       decorators_return_inner_result
         [where inner = answering_client and i = 0 and ctx = ctx_T1 and req = demo_request
            and resp = None and e = "Foreign ''rate limited''" and ?i1.0 = 1
            and r = demo_response and s' = state0
            and lib = demo_library and c = demo_client and ?t0.0 = 0 and ?t1.0 = 5
            and s = state0 and Inner = counting_sink and mo = "Some demo_meter"
            and ev = link_R2 and j = 0]
       decorators_return_inner_result
         [where inner = silent_client and i = 0 and ctx = ctx_T1 and req = demo_request
            and resp = None and e = "Foreign ''rate limited''" and ?i1.0 = 1
            and r = demo_response and s' = state0
            and lib = demo_library and c = demo_client and ?t0.0 = 0 and ?t1.0 = 5
            and s = state0 and Inner = counting_sink and mo = "Some demo_meter"
            and ev = link_R2 and j = 0]
       h1 h2 h3
  show ?thesis by (simp add: counting_sink_def)
qed

text \<open>
  C4 as stated (for every inner result, \<open>Complete\<close> returns the pair of the inner
  client unchanged) fails when the inner client returns a nil response and no error:
  \<open>Complete\<close> does not return that pair, it panics while it builds the payload.
\<close>

theorem Complete_nil_response_counterexample:
  "silent_client 0 ctx_T1 demo_request = ((None, None), 1)
   \<and> fst (Complete silent_client demo_library demo_client ctx_T1 demo_request 0 5 (state0, 0))
       = Panics ''runtime error: invalid memory address or nil pointer dereference''
   \<and> fst (Complete silent_client demo_library demo_client ctx_T1 demo_request 0 5 (state0, 0))
       \<noteq> Returns (None, None)"
  by (simp add: Complete_def silent_client_def)

subsection \<open>Delivery with retries\<close>

lemma send_result_iff:
  "fst (send m d url body k s) = None \<longleftrightarrow> delivered (attempt_result d k)"
  by (simp add: send_def delivered_def Let_def split: send_result.splits)

lemma send_fields [simp]:
  "io (snd (send m d url body k s)) = io s @ [Attempt url body]"
  "traces (snd (send m d url body k s)) = traces s"
  "spawned (snd (send m d url body k s)) = spawned s"
  "wg (snd (send m d url body k s)) = wg s"
  by (simp_all add: send_def Let_def split: send_result.splits)

text \<open>One round of the loop, by the attempt number and the outcome of \<open>send\<close>.\<close>

lemma retry_loop_done:
  "retry_loop m d p url body 4 backoff err s = (err, s)"
  by (subst retry_loop.simps) (simp add: maxRetries_def)

lemma retry_loop_first_fail:
  assumes "\<not> delivered (attempt_result d 0)"
  shows "\<exists>e s'. retry_loop m d p url body 0 backoff err s
                 = retry_loop m d p url body 1 backoff (Some e) s'
             \<and> io s' = io s @ [Attempt url body]
             \<and> spawned s' = spawned s \<and> wg s' = wg s"
proof -
  obtain r s3 where snd: "send m d url body 0 s = (r, s3)"
    by (cases "send m d url body 0 s")
  with assms send_result_iff [of m d url body 0 s] obtain e where "r = Some e"
    by (cases r) auto
  moreover from snd have "io s3 = io s @ [Attempt url body]" "spawned s3 = spawned s"
      "wg s3 = wg s"
    using send_fields [of m d url body 0 s] by simp_all
  ultimately show ?thesis using snd
    by (subst retry_loop.simps) (fastforce simp: maxRetries_def)
qed

lemma retry_loop_later_fail:
  assumes "0 < k" "k \<le> 3" "\<not> delivered (attempt_result d k)" "\<not> ctx_Done d k"
  shows "\<exists>e s'. retry_loop m d p url body k backoff err s
                 = retry_loop m d p url body (Suc k) (backoff * 2) (Some e) s'
             \<and> io s' = io s @ [Sleep backoff, Attempt url body]
             \<and> spawned s' = spawned s \<and> wg s' = wg s"
proof -
  let ?s1 = "Debug_log (logger m) ''retrying metering request (attempt %d/%d)''
               [Num (int k), Num (int maxRetries)] s"
  let ?s2 = "?s1\<lparr>io := io ?s1 @ [Sleep backoff]\<rparr>"
  obtain r s3 where snd: "send m d url body k ?s2 = (r, s3)"
    by (cases "send m d url body k ?s2")
  with assms send_result_iff [of m d url body k ?s2] obtain e where "r = Some e"
    by (cases r) auto
  moreover from snd have "io s3 = io s @ [Sleep backoff, Attempt url body]"
      "spawned s3 = spawned s" "wg s3 = wg s"
    using send_fields [of m d url body k ?s2] by simp_all
  ultimately show ?thesis using snd assms
    by (subst retry_loop.simps) (fastforce simp: maxRetries_def Let_def)
qed

lemma retry_loop_first_ok:
  assumes "delivered (attempt_result d 0)"
  shows "fst (retry_loop m d p url body 0 backoff err s) = None
       \<and> io (snd (retry_loop m d p url body 0 backoff err s)) = io s @ [Attempt url body]"
proof -
  obtain r s3 where snd: "send m d url body 0 s = (r, s3)"
    by (cases "send m d url body 0 s")
  with assms send_result_iff [of m d url body 0 s] have "r = None" by simp
  moreover from snd have "io s3 = io s @ [Attempt url body]"
    using send_fields [of m d url body 0 s] by simp
  ultimately show ?thesis using snd
    by (subst (1 2) retry_loop.simps) (simp add: maxRetries_def)
qed

lemma retry_loop_later_ok:
  assumes "0 < k" "k \<le> 3" "delivered (attempt_result d k)" "\<not> ctx_Done d k"
  shows "fst (retry_loop m d p url body k backoff err s) = None
       \<and> io (snd (retry_loop m d p url body k backoff err s))
           = io s @ [Sleep backoff, Attempt url body]"
proof -
  let ?s1 = "Debug_log (logger m) ''retrying metering request (attempt %d/%d)''
               [Num (int k), Num (int maxRetries)] s"
  let ?s2 = "?s1\<lparr>io := io ?s1 @ [Sleep backoff]\<rparr>"
  obtain r s3 where snd: "send m d url body k ?s2 = (r, s3)"
    by (cases "send m d url body k ?s2")
  with assms send_result_iff [of m d url body k ?s2] have "r = None" by simp
  moreover from snd have "io s3 = io s @ [Sleep backoff, Attempt url body]"
    using send_fields [of m d url body k ?s2] by simp
  ultimately show ?thesis using snd assms
    by (subst (1 2) retry_loop.simps) (simp add: maxRetries_def Let_def)
qed

text \<open>Four failures in a row: the whole schedule, and the last error comes back.\<close>

lemma all_fail_io:
  assumes f: "\<forall>k\<le>3. \<not> delivered (attempt_result d k)"
    and t: "\<forall>k. 1 \<le> k \<and> k \<le> 3 \<longrightarrow> \<not> ctx_Done d k"
  shows "\<exists>e s'. retry_loop m d p url body 0 b None s = (Some e, s')
           \<and> io s' = io s @ [Attempt url body, Sleep b, Attempt url body, Sleep (b * 2),
                              Attempt url body, Sleep (b * 2 * 2), Attempt url body]
           \<and> spawned s' = spawned s \<and> wg s' = wg s"
proof -
  from f have f0: "\<not> delivered (attempt_result d 0)" and f1: "\<not> delivered (attempt_result d 1)"
    and f2: "\<not> delivered (attempt_result d 2)" and f3: "\<not> delivered (attempt_result d 3)"
    by simp_all
  from t have t1: "\<not> ctx_Done d 1" and t2: "\<not> ctx_Done d 2" and t3: "\<not> ctx_Done d 3"
    by simp_all
  obtain e0 s0 where r0: "retry_loop m d p url body 0 b None s
        = retry_loop m d p url body 1 b (Some e0) s0"
    and i0: "io s0 = io s @ [Attempt url body]" "spawned s0 = spawned s" "wg s0 = wg s"
    using retry_loop_first_fail [OF f0, of m p url body b None s] by blast
  obtain e1 s1 where r1: "retry_loop m d p url body 1 b (Some e0) s0
        = retry_loop m d p url body (Suc 1) (b * 2) (Some e1) s1"
    and i1: "io s1 = io s0 @ [Sleep b, Attempt url body]" "spawned s1 = spawned s0"
      "wg s1 = wg s0"
    using retry_loop_later_fail [OF _ _ f1 t1, of m p url body b "Some e0" s0] by auto
  obtain e2 s2 where r2: "retry_loop m d p url body 2 (b * 2) (Some e1) s1
        = retry_loop m d p url body (Suc 2) (b * 2 * 2) (Some e2) s2"
    and i2: "io s2 = io s1 @ [Sleep (b * 2), Attempt url body]" "spawned s2 = spawned s1"
      "wg s2 = wg s1"
    using retry_loop_later_fail [OF _ _ f2 t2, of m p url body "b * 2" "Some e1" s1] by auto
  obtain e3 s3 where r3: "retry_loop m d p url body 3 (b * 2 * 2) (Some e2) s2
        = retry_loop m d p url body (Suc 3) (b * 2 * 2 * 2) (Some e3) s3"
    and i3: "io s3 = io s2 @ [Sleep (b * 2 * 2), Attempt url body]" "spawned s3 = spawned s2"
      "wg s3 = wg s2"
    using retry_loop_later_fail [OF _ _ f3 t3, of m p url body "b * 2 * 2" "Some e2" s2] by auto
  have "retry_loop m d p url body 0 b None s = (Some e3, s3)"
    using r0 r1 r2 r3 retry_loop_done [of m d p url body "b * 2 * 2 * 2" "Some e3" s3]
    by (simp add: eval_nat_numeral)
  then show ?thesis using i0 i1 i2 i3 by simp
qed

text \<open>The first success is at attempt \<open>k\<close>: the schedule stops right there.\<close>

lemma first_success_io:
  assumes k: "k \<le> 3" and ok: "delivered (attempt_result d k)"
    and f: "\<forall>j<k. \<not> delivered (attempt_result d j)"
    and t: "\<forall>j. 1 \<le> j \<and> j \<le> k \<longrightarrow> \<not> ctx_Done d j"
  shows "fst (retry_loop m d p url body 0 b None s) = None
       \<and> io (snd (retry_loop m d p url body 0 b None s))
           = io s @ take (2 * k + 1)
               [Attempt url body, Sleep b, Attempt url body, Sleep (b * 2),
                Attempt url body, Sleep (b * 2 * 2), Attempt url body]"
proof -
  from k consider "k = 0" | "k = 1" | "k = 2" | "k = 3" by linarith
  then show ?thesis
  proof cases
    case 1
    with ok show ?thesis using retry_loop_first_ok [of d m p url body b None s] by simp
  next
    case 2
    with f have f0: "\<not> delivered (attempt_result d 0)" by simp
    from 2 t have t1: "\<not> ctx_Done d 1" by simp
    from 2 ok have ok1: "delivered (attempt_result d 1)" by simp
    obtain e0 s0 where r0: "retry_loop m d p url body 0 b None s
          = retry_loop m d p url body 1 b (Some e0) s0"
      and i0: "io s0 = io s @ [Attempt url body]"
      using retry_loop_first_fail [OF f0, of m p url body b None s] by blast
    show ?thesis
      using retry_loop_later_ok [OF _ _ ok1 t1, of m p url body b "Some e0" s0] r0 i0 2
      by (simp add: eval_nat_numeral)
  next
    case 3
    with f have f0: "\<not> delivered (attempt_result d 0)"
      and f1: "\<not> delivered (attempt_result d 1)"
      by simp_all
    from 3 t have t1: "\<not> ctx_Done d 1" and t2: "\<not> ctx_Done d 2" by simp_all
    from 3 ok have ok2: "delivered (attempt_result d 2)" by simp
    obtain e0 s0 where r0: "retry_loop m d p url body 0 b None s
          = retry_loop m d p url body 1 b (Some e0) s0"
      and i0: "io s0 = io s @ [Attempt url body]"
      using retry_loop_first_fail [OF f0, of m p url body b None s] by blast
    obtain e1 s1 where r1: "retry_loop m d p url body 1 b (Some e0) s0
          = retry_loop m d p url body (Suc 1) (b * 2) (Some e1) s1"
      and i1: "io s1 = io s0 @ [Sleep b, Attempt url body]"
      using retry_loop_later_fail [OF _ _ f1 t1, of m p url body b "Some e0" s0] by auto
    show ?thesis
      using retry_loop_later_ok [OF _ _ ok2 t2, of m p url body "b * 2" "Some e1" s1]
        r0 r1 i0 i1 3
      by (simp add: eval_nat_numeral)
  next
    case 4
    with f have f0: "\<not> delivered (attempt_result d 0)"
      and f1: "\<not> delivered (attempt_result d 1)"
      and f2: "\<not> delivered (attempt_result d 2)"
      by simp_all
    from 4 t have t1: "\<not> ctx_Done d 1" and t2: "\<not> ctx_Done d 2" and t3: "\<not> ctx_Done d 3"
      by simp_all
    from 4 ok have ok3: "delivered (attempt_result d 3)" by simp
    obtain e0 s0 where r0: "retry_loop m d p url body 0 b None s
          = retry_loop m d p url body 1 b (Some e0) s0"
      and i0: "io s0 = io s @ [Attempt url body]"
      using retry_loop_first_fail [OF f0, of m p url body b None s] by blast
    obtain e1 s1 where r1: "retry_loop m d p url body 1 b (Some e0) s0
          = retry_loop m d p url body (Suc 1) (b * 2) (Some e1) s1"
      and i1: "io s1 = io s0 @ [Sleep b, Attempt url body]"
      using retry_loop_later_fail [OF _ _ f1 t1, of m p url body b "Some e0" s0] by auto
    obtain e2 s2 where r2: "retry_loop m d p url body 2 (b * 2) (Some e1) s1
          = retry_loop m d p url body (Suc 2) (b * 2 * 2) (Some e2) s2"
      and i2: "io s2 = io s1 @ [Sleep (b * 2), Attempt url body]"
      using retry_loop_later_fail [OF _ _ f2 t2, of m p url body "b * 2" "Some e1" s1] by auto
    show ?thesis
      using retry_loop_later_ok [OF _ _ ok3 t3, of m p url body "b * 2 * 2" "Some e2" s2]
        r0 r1 r2 i0 i1 i2 4
      by (simp add: eval_nat_numeral)
  qed
qed

text \<open>
  C5. (a) When the payload is encoded, all four attempts fail (transport error or a
  status outside 2xx) and the context is never done at a wait, \<open>sendWithRetry\<close> makes
  exactly four attempts with waits of 1, 2 and 4 seconds between them and returns the
  last error; the goroutine then logs one error line, touches the network no more and
  starts no new goroutine for the payload. (b) When attempt \<open>k\<close> is the first that is
  delivered, the attempts and waits are the first \<open>2k + 1\<close> steps of that schedule and
  nothing follows; the result is \<open>nil\<close>. (c) When the payload cannot be encoded,
  \<open>sendWithRetry\<close> returns the error at once, with no attempt and no wait, and the
  goroutine logs it.
\<close>

theorem sendWithRetry_schedule:
  "(Marshal d payload = Inr body
      \<and> (\<forall>k\<le>3. \<not> delivered (attempt_result d k))
      \<and> (\<forall>k. 1 \<le> k \<and> k \<le> 3 \<longrightarrow> \<not> ctx_Done d k)
    \<longrightarrow> (\<exists>e. fst (sendWithRetry m d payload s) = Some e
             \<and> logged (SendAsync_goroutine m d payload s)
                 = logged (snd (sendWithRetry m d payload s))
                   @ [Log ERROR ''failed to send metering payload: %v'' [Err e]])
        \<and> io (snd (sendWithRetry m d payload s))
            = io s @ [Attempt (BaseURL (cfg m) @ meteringPath) body, Sleep Second,
                      Attempt (BaseURL (cfg m) @ meteringPath) body, Sleep (2 * Second),
                      Attempt (BaseURL (cfg m) @ meteringPath) body, Sleep (4 * Second),
                      Attempt (BaseURL (cfg m) @ meteringPath) body]
        \<and> io (SendAsync_goroutine m d payload s) = io (snd (sendWithRetry m d payload s))
        \<and> spawned (SendAsync_goroutine m d payload s) = spawned s
        \<and> wg (SendAsync_goroutine m d payload s) = wg s - 1)
   \<and> (Marshal d payload = Inr body \<and> k \<le> 3 \<and> delivered (attempt_result d k)
      \<and> (\<forall>j<k. \<not> delivered (attempt_result d j))
      \<and> (\<forall>j. 1 \<le> j \<and> j \<le> k \<longrightarrow> \<not> ctx_Done d j)
    \<longrightarrow> fst (sendWithRetry m d payload s) = None
        \<and> io (snd (sendWithRetry m d payload s))
            = io s @ take (2 * k + 1)
                [Attempt (BaseURL (cfg m) @ meteringPath) body, Sleep Second,
                 Attempt (BaseURL (cfg m) @ meteringPath) body, Sleep (2 * Second),
                 Attempt (BaseURL (cfg m) @ meteringPath) body, Sleep (4 * Second),
                 Attempt (BaseURL (cfg m) @ meteringPath) body])
   \<and> (Marshal d payload = Inl err
    \<longrightarrow> sendWithRetry m d payload s
          = (Some (newMeteringError ''failed to marshal payload'' [] (Some err)), s)
        \<and> io (SendAsync_goroutine m d payload s) = io s
        \<and> logged (SendAsync_goroutine m d payload s)
            = logged s @ [Log ERROR ''failed to send metering payload: %v''
                            [Err (newMeteringError ''failed to marshal payload'' []
                                    (Some err))]])"
proof (intro conjI impI)
  let ?url = "BaseURL (cfg m) @ meteringPath"
  let ?s1 = "Debug_log (logger m) ''metering payload: %s'' [Str body] s"
  have unfold: "Marshal d payload = Inr body \<Longrightarrow>
      sendWithRetry m d payload s = retry_loop m d payload ?url body 0 Second None ?s1"
    by (simp add: sendWithRetry_def Let_def)
  {
    assume a: "Marshal d payload = Inr body \<and> (\<forall>k\<le>3. \<not> delivered (attempt_result d k))
      \<and> (\<forall>k. 1 \<le> k \<and> k \<le> 3 \<longrightarrow> \<not> ctx_Done d k)"
    then obtain e s' where r: "retry_loop m d payload ?url body 0 Second None ?s1 = (Some e, s')"
      and i: "io s' = io ?s1 @ [Attempt ?url body, Sleep Second, Attempt ?url body,
                               Sleep (Second * 2), Attempt ?url body,
                               Sleep (Second * 2 * 2), Attempt ?url body]"
        "spawned s' = spawned ?s1" "wg s' = wg ?s1"
      using all_fail_io [of d m payload ?url body Second ?s1] by blast
    from a r i unfold
    show "\<exists>e. fst (sendWithRetry m d payload s) = Some e
             \<and> logged (SendAsync_goroutine m d payload s)
                 = logged (snd (sendWithRetry m d payload s))
                   @ [Log ERROR ''failed to send metering payload: %v'' [Err e]]"
      by (simp add: SendAsync_goroutine_def)
    from a r i unfold
    show "io (snd (sendWithRetry m d payload s))
            = io s @ [Attempt ?url body, Sleep Second, Attempt ?url body, Sleep (2 * Second),
                      Attempt ?url body, Sleep (4 * Second), Attempt ?url body]"
      by (simp add: mult.commute)
    from a r i unfold
    show "io (SendAsync_goroutine m d payload s) = io (snd (sendWithRetry m d payload s))"
      by (simp add: SendAsync_goroutine_def)
    from a r i unfold
    show "spawned (SendAsync_goroutine m d payload s) = spawned s"
      by (simp add: SendAsync_goroutine_def)
    from a r i unfold
    show "wg (SendAsync_goroutine m d payload s) = wg s - 1"
      by (simp add: SendAsync_goroutine_def)
  }
  {
    assume a: "Marshal d payload = Inr body \<and> k \<le> 3 \<and> delivered (attempt_result d k)
      \<and> (\<forall>j<k. \<not> delivered (attempt_result d j))
      \<and> (\<forall>j. 1 \<le> j \<and> j \<le> k \<longrightarrow> \<not> ctx_Done d j)"
    then have "fst (retry_loop m d payload ?url body 0 Second None ?s1) = None
       \<and> io (snd (retry_loop m d payload ?url body 0 Second None ?s1))
           = io ?s1 @ take (2 * k + 1)
               [Attempt ?url body, Sleep Second, Attempt ?url body, Sleep (Second * 2),
                Attempt ?url body, Sleep (Second * 2 * 2), Attempt ?url body]"
      using first_success_io [of k d m payload ?url body Second ?s1] by blast
    with a unfold
    show "fst (sendWithRetry m d payload s) = None"
      and "io (snd (sendWithRetry m d payload s))
            = io s @ take (2 * k + 1)
                [Attempt ?url body, Sleep Second, Attempt ?url body, Sleep (2 * Second),
                 Attempt ?url body, Sleep (4 * Second), Attempt ?url body]"
      by (simp_all add: mult.commute)
  }
  {
    assume a: "Marshal d payload = Inl err"
    then show "sendWithRetry m d payload s
          = (Some (newMeteringError ''failed to marshal payload'' [] (Some err)), s)"
      by (simp add: sendWithRetry_def)
    from a show "io (SendAsync_goroutine m d payload s) = io s"
      by (simp add: sendWithRetry_def SendAsync_goroutine_def)
    from a show "logged (SendAsync_goroutine m d payload s)
            = logged s @ [Log ERROR ''failed to send metering payload: %v''
                            [Err (newMeteringError ''failed to marshal payload'' []
                                    (Some err))]]"
      by (simp add: sendWithRetry_def SendAsync_goroutine_def)
  }
qed

theorem sendWithRetry_schedule_witness:
  "io (snd (sendWithRetry demo_meter always_503 demo_payload state0))
     = [Attempt ''https://api.revenium.ai/meter/v2/ai/completions'' ''{}'', Sleep 1000000000,
        Attempt ''https://api.revenium.ai/meter/v2/ai/completions'' ''{}'', Sleep 2000000000,
        Attempt ''https://api.revenium.ai/meter/v2/ai/completions'' ''{}'', Sleep 4000000000,
        Attempt ''https://api.revenium.ai/meter/v2/ai/completions'' ''{}'']
   \<and> fst (sendWithRetry demo_meter always_503 demo_payload state0) \<noteq> None
   \<and> io (snd (sendWithRetry demo_meter second_attempt_ok demo_payload state0))
     = [Attempt ''https://api.revenium.ai/meter/v2/ai/completions'' ''{}'', Sleep 1000000000,
        Attempt ''https://api.revenium.ai/meter/v2/ai/completions'' ''{}'']
   \<and> fst (sendWithRetry demo_meter second_attempt_ok demo_payload state0) = None
   \<and> sendWithRetry demo_meter unencodable demo_payload state0
     = (Some (newMeteringError ''failed to marshal payload'' []
                (Some (Foreign ''json: unsupported value''))), state0)"
proof -
  have a1: "Marshal always_503 demo_payload = Inr ''{}''
      \<and> (\<forall>k\<le>3. \<not> delivered (attempt_result always_503 k))
      \<and> (\<forall>k. 1 \<le> k \<and> k \<le> 3 \<longrightarrow> \<not> ctx_Done always_503 k)"
    by (simp add: always_503_def delivered_def)
  have a2: "Marshal second_attempt_ok demo_payload = Inr ''{}'' \<and> (1::nat) \<le> 3
      \<and> delivered (attempt_result second_attempt_ok 1)
      \<and> (\<forall>j<1. \<not> delivered (attempt_result second_attempt_ok j))
      \<and> (\<forall>j. 1 \<le> j \<and> j \<le> 1 \<longrightarrow> \<not> ctx_Done second_attempt_ok j)"
    by (simp add: second_attempt_ok_def delivered_def)
  have a3: "Marshal unencodable demo_payload = Inl (Foreign ''json: unsupported value'')"
    by (simp add: unencodable_def)
  from sendWithRetry_schedule
         [where d = always_503 and payload = demo_payload and body = "''{}''"
            and m = demo_meter and s = state0 and k = 0 and err = "Foreign ''none''"]
       sendWithRetry_schedule
         [where d = second_attempt_ok and payload = demo_payload and body = "''{}''"
            and m = demo_meter and s = state0 and k = 1 and err = "Foreign ''none''"]
       sendWithRetry_schedule
         [where d = unencodable and payload = demo_payload and m = demo_meter and s = state0
            and err = "Foreign ''json: unsupported value''" and k = 0 and body = "''{}''"]
       a1 a2 a3
  show ?thesis
    by (auto simp: state0_def Second_def demo_meter_def demo_config_def meteringPath_def)
qed

subsection \<open>Streams\<close>

lemma Stream_fresh:
  assumes "Stream inner c ctx req start i = ((Some st0, None), i1)"
  shows "InputTokens (usage st0) = 0" "OutputTokens (usage st0) = 0" "s_stopReason st0 = ''''"
  using assms by (auto simp: Stream_def split: prod.splits if_splits)

lemma Recv_replay:
  "fst (Recv replay st (r # rs)) = r"
  "snd (snd (Recv replay st (r # rs))) = rs"
  "InputTokens (usage (fst (snd (Recv replay st (r # rs)))))
     = InputTokens (usage st)
       + (case UsageDelta (fst r) of None \<Rightarrow> 0 | Some u \<Rightarrow> InputTokens u)"
  "OutputTokens (usage (fst (snd (Recv replay st (r # rs)))))
     = OutputTokens (usage st)
       + (case UsageDelta (fst r) of None \<Rightarrow> 0 | Some u \<Rightarrow> OutputTokens u)"
  "s_stopReason (fst (snd (Recv replay st (r # rs))))
     = (if chunk_StopReason (fst r) \<noteq> '''' then chunk_StopReason (fst r) else s_stopReason st)"
  by (simp_all add: Recv_def replay_def Let_def split: prod.splits option.splits)

text \<open>Receiving a whole list of results: induction on the list, for any streamer.\<close>

lemma Recv_times_replay:
  "InputTokens (usage (fst (Recv_times replay (length rs) st rs)))
     = InputTokens (usage st)
       + sum_list (map (\<lambda>r. case UsageDelta (fst r) of None \<Rightarrow> 0
                                | Some u \<Rightarrow> InputTokens u) rs)
   \<and> OutputTokens (usage (fst (Recv_times replay (length rs) st rs)))
     = OutputTokens (usage st)
       + sum_list (map (\<lambda>r. case UsageDelta (fst r) of None \<Rightarrow> 0
                                | Some u \<Rightarrow> OutputTokens u) rs)
   \<and> s_stopReason (fst (Recv_times replay (length rs) st rs))
     = last (s_stopReason st
             # filter (\<lambda>x. x \<noteq> '''') (map (\<lambda>r. chunk_StopReason (fst r)) rs))
   \<and> snd (Recv_times replay (length rs) st rs) = []"
proof (induction rs arbitrary: st)
  case Nil
  show ?case by simp
next
  case (Cons r rs)
  obtain x st1 i1 where step: "Recv replay st (r # rs) = (x, st1, i1)"
    by (cases "Recv replay st (r # rs)") auto
  with Recv_replay [of st r rs] have i1: "i1 = rs"
    and u: "InputTokens (usage st1)
       = InputTokens (usage st)
         + (case UsageDelta (fst r) of None \<Rightarrow> 0 | Some u \<Rightarrow> InputTokens u)"
      "OutputTokens (usage st1)
       = OutputTokens (usage st)
         + (case UsageDelta (fst r) of None \<Rightarrow> 0 | Some u \<Rightarrow> OutputTokens u)"
    and sr: "s_stopReason st1
       = (if chunk_StopReason (fst r) \<noteq> '''' then chunk_StopReason (fst r)
          else s_stopReason st)"
    by simp_all
  from step i1 have "Recv_times replay (length (r # rs)) st (r # rs)
      = Recv_times replay (length rs) st1 rs"
    by simp
  with Cons.IH [of st1] u sr show ?case
    by (simp add: add.assoc)
qed

lemma Close_payload:
  assumes a: "0 <s InputTokens (usage st) \<or> 0 <s OutputTokens (usage st)"
  shows "\<exists>p. spawned (fst (snd (Close inner lib st t (s, j)))) = spawned s @ [p]
       \<and> inputTokenCount p = InputTokens (usage st)
       \<and> outputTokenCount p = OutputTokens (usage st)
       \<and> totalTokenCount p = InputTokens (usage st) + OutputTokens (usage st)
       \<and> cacheReadTokenCount p = 0 \<and> cacheCreationTokenCount p = 0
       \<and> stopReason p = MapStopReason (s_stopReason st) \<and> isStreamed p"
proof -
  obtain err j1 where c: "inner j = (err, j1)" by (cases "inner j")
  from a c obtain P
    where P: "fst (snd (Close inner lib st t (s, j))) = SendAsync (c_meter st) P s"
    and f: "inputTokenCount P = InputTokens (usage st)"
      "outputTokenCount P = OutputTokens (usage st)"
      "totalTokenCount P = InputTokens (usage st) + OutputTokens (usage st)"
      "cacheReadTokenCount P = 0" "cacheCreationTokenCount P = 0"
      "stopReason P = MapStopReason (s_stopReason st)" "isStreamed P"
    by (cases "capturePrompts st") (simp_all add: Close_def Let_def)
  from SendAsync_spawned [of "c_meter st" P s] P f show ?thesis by auto
qed

lemma Close_no_payload:
  "\<not> (0 <s InputTokens (usage st) \<or> 0 <s OutputTokens (usage st)) \<Longrightarrow>
     fst (snd (Close inner lib st t (s, j))) = s"
  by (simp add: Close_def Let_def split: prod.splits)

text \<open>
  C6. A streamer made by \<open>Stream\<close> that has received the results \<open>rs\<close> holds the
  sums of their input and output deltas (in Go's \<open>int\<close>) and the last non-empty stop
  reason. \<open>Close\<close> then starts exactly one goroutine, whose payload carries these sums
  and their total, when the input or the output sum is positive; otherwise, in particular
  when both sums are zero, it starts none. The deltas \<open>(10,0), (0,5), (0,3)\<close> give
  10, 8 and the total 18.
\<close>

theorem stream_accumulates_and_Close_submits_once:
  assumes "Stream inner_stream c ctx req start i = ((Some st0, None), i1)"
    and "st = fst (Recv_times replay (length rs) st0 rs)"
    and "tin = sum_list (map (\<lambda>r. case UsageDelta (fst r) of None \<Rightarrow> 0
                                       | Some u \<Rightarrow> InputTokens u) rs)"
    and "tout = sum_list (map (\<lambda>r. case UsageDelta (fst r) of None \<Rightarrow> 0
                                        | Some u \<Rightarrow> OutputTokens u) rs)"
  shows "InputTokens (usage st) = tin \<and> OutputTokens (usage st) = tout
       \<and> s_stopReason st
           = last ('''' # filter (\<lambda>x. x \<noteq> '''') (map (\<lambda>r. chunk_StopReason (fst r)) rs))
       \<and> (0 <s tin \<or> 0 <s tout \<longrightarrow>
            (\<exists>p. spawned (fst (snd (Close inner_close lib st end' (s, j)))) = spawned s @ [p]
                \<and> inputTokenCount p = tin \<and> outputTokenCount p = tout
                \<and> totalTokenCount p = tin + tout
                \<and> stopReason p = MapStopReason (s_stopReason st) \<and> isStreamed p))
       \<and> (tin = 0 \<and> tout = 0 \<longrightarrow>
            spawned (fst (snd (Close inner_close lib st end' (s, j)))) = spawned s)
       \<and> (\<not> (0 <s tin \<or> 0 <s tout) \<longrightarrow> fst (snd (Close inner_close lib st end' (s, j))) = s)"
proof -
  from Recv_times_replay [of rs st0] Stream_fresh [OF assms(1)] assms(2-4)
  have acc: "InputTokens (usage st) = tin" "OutputTokens (usage st) = tout"
    "s_stopReason st
       = last ('''' # filter (\<lambda>x. x \<noteq> '''') (map (\<lambda>r. chunk_StopReason (fst r)) rs))"
    by simp_all
  have one: "\<exists>p. spawned (fst (snd (Close inner_close lib st end' (s, j)))) = spawned s @ [p]
                \<and> inputTokenCount p = tin \<and> outputTokenCount p = tout
                \<and> totalTokenCount p = tin + tout
                \<and> stopReason p = MapStopReason (s_stopReason st) \<and> isStreamed p"
    if "0 <s tin \<or> 0 <s tout"
    using Close_payload [of st inner_close lib end' s j] that acc by auto
  have none: "fst (snd (Close inner_close lib st end' (s, j))) = s"
    if "\<not> (0 <s tin \<or> 0 <s tout)"
    using Close_no_payload [of st inner_close lib end' s j] that acc by simp
  have zero: "spawned (fst (snd (Close inner_close lib st end' (s, j)))) = spawned s"
    if "tin = 0 \<and> tout = 0"
    using none that by simp
  from acc one none zero show ?thesis by blast
qed

theorem stream_accumulates_and_Close_submits_once_witness:
  "Stream opening_stream demo_client ctx_T1 demo_request 0 0 = ((Some fresh_streamer, None), 1)
   \<and> InputTokens (usage (fst (Recv_times replay (length three_chunks) fresh_streamer three_chunks)))
       = 10
   \<and> OutputTokens (usage (fst (Recv_times replay (length three_chunks) fresh_streamer three_chunks)))
       = 8
   \<and> s_stopReason (fst (Recv_times replay (length three_chunks) fresh_streamer three_chunks))
       = ''length''
   \<and> (\<exists>p. spawned (fst (snd (Close closing_stream demo_library
              (fst (Recv_times replay (length three_chunks) fresh_streamer three_chunks))
              5 (state0, 0)))) = [p]
         \<and> inputTokenCount p = 10 \<and> outputTokenCount p = 8 \<and> totalTokenCount p = 18
         \<and> stopReason p = ''TOKEN_LIMIT'')
   \<and> fst (snd (Close closing_stream demo_library fresh_streamer 5 (state0, 0))) = state0"
proof -
  have h: "Stream opening_stream demo_client ctx_T1 demo_request 0 0
             = ((Some fresh_streamer, None), 1)"
    by (simp add: Stream_def opening_stream_def fresh_streamer_def demo_client_def
        resolveModel_def demo_request_def)
  have sums: "sum_list (map (\<lambda>r. case UsageDelta (fst r) of None \<Rightarrow> 0
                                     | Some u \<Rightarrow> InputTokens u) three_chunks) = 10"
    "sum_list (map (\<lambda>r. case UsageDelta (fst r) of None \<Rightarrow> 0
                            | Some u \<Rightarrow> OutputTokens u) three_chunks) = 8"
    "last ('''' # filter (\<lambda>x. x \<noteq> '''') (map (\<lambda>r. chunk_StopReason (fst r)) three_chunks))
       = ''length''"
    by (simp_all add: three_chunks_def delta_chunk_def)
  have pos: "(0 :: go_int) <s 10 \<or> (0 :: go_int) <s 8" by (simp add: word_sless_alt)
  have zero: "\<not> ((0 :: go_int) <s 0 \<or> (0 :: go_int) <s 0)" by simp
  from stream_accumulates_and_Close_submits_once
         [OF h refl refl refl, of three_chunks closing_stream demo_library 5 state0 0]
       stream_accumulates_and_Close_submits_once
         [OF h refl refl refl, of "[]" closing_stream demo_library 5 state0 0]
       h sums pos zero
  show ?thesis
    by (auto simp: state0_def MapStopReason_def StopReasonTokenLimit_def)
qed

text \<open>
  C6 as stated (one payload unless both sums are zero) fails on a sum that is neither
  positive nor zero: after the single delta \<open>(-5, 0)\<close> the sums are not both zero,
  and \<open>Close\<close> starts no goroutine.
\<close>

theorem Close_negative_sum_counterexample:
  "Stream opening_stream demo_client ctx_T1 demo_request 0 0 = ((Some fresh_streamer, None), 1)
   \<and> sint (InputTokens (usage (fst (Recv_times replay (length negative_chunk) fresh_streamer
                                        negative_chunk)))) = - 5
   \<and> sint (OutputTokens (usage (fst (Recv_times replay (length negative_chunk) fresh_streamer
                                         negative_chunk)))) = 0
   \<and> spawned (fst (snd (Close closing_stream demo_library
         (fst (Recv_times replay (length negative_chunk) fresh_streamer negative_chunk))
         5 (state0, 0)))) = []"
  by (simp add: Stream_def opening_stream_def fresh_streamer_def demo_client_def
      resolveModel_def demo_request_def negative_chunk_def delta_chunk_def Recv_def replay_def
      Close_def closing_stream_def Let_def state0_def word_sless_alt)

subsection \<open>Stop-reason normalisation\<close>

text \<open>
  C7. \<open>MapStopReason\<close> is total: \<open>length\<close> and \<open>max_tokens\<close> give
  \<open>TOKEN_LIMIT\<close>, every other string gives \<open>END\<close>; in particular \<open>stop\<close>,
  \<open>end_turn\<close>, \<open>complete\<close>, \<open>tool_calls\<close>, \<open>tool_use\<close>,
  \<open>content_filter\<close> and the empty string give \<open>END\<close>.
\<close>

theorem MapStopReason_total:
  "MapStopReason r = (if r = ''length'' \<or> r = ''max_tokens'' then ''TOKEN_LIMIT'' else ''END'')
   \<and> MapStopReason ''stop'' = ''END'' \<and> MapStopReason ''end_turn'' = ''END''
   \<and> MapStopReason ''complete'' = ''END'' \<and> MapStopReason ''tool_calls'' = ''END''
   \<and> MapStopReason ''tool_use'' = ''END'' \<and> MapStopReason ''content_filter'' = ''END''
   \<and> MapStopReason '''' = ''END''
   \<and> MapStopReason ''length'' = ''TOKEN_LIMIT'' \<and> MapStopReason ''max_tokens'' = ''TOKEN_LIMIT''"
  by (simp add: MapStopReason_def StopReasonEnd_def StopReasonTokenLimit_def)

subsection \<open>Token totals\<close>

lemma Complete_payload:
  assumes "inner i ctx req = ((Some r, None), i1)"
  shows "\<exists>p. spawned (fst (snd (Complete inner lib c ctx req t0 t1 (s, i)))) = spawned s @ [p]
       \<and> inputTokenCount p = InputTokens (Usage r)
       \<and> outputTokenCount p = OutputTokens (Usage r)
       \<and> totalTokenCount p = InputTokens (Usage r) + OutputTokens (Usage r)
       \<and> cacheReadTokenCount p = CacheReadTokens (Usage r)
       \<and> cacheCreationTokenCount p = CacheWriteTokens (Usage r)"
proof -
  from assms obtain P
    where P: "fst (snd (Complete inner lib c ctx req t0 t1 (s, i))) = SendAsync (c_meter c) P s"
    and f: "inputTokenCount P = InputTokens (Usage r)"
      "outputTokenCount P = OutputTokens (Usage r)"
      "totalTokenCount P = InputTokens (Usage r) + OutputTokens (Usage r)"
      "cacheReadTokenCount P = CacheReadTokens (Usage r)"
      "cacheCreationTokenCount P = CacheWriteTokens (Usage r)"
    by (cases "capturePrompts c") (simp_all add: Complete_def Let_def)
  from SendAsync_spawned [of "c_meter c" P s] P f show ?thesis by auto
qed

lemma Complete_no_payload:
  assumes "inner i ctx req = ((resp, err), i1)" and "err \<noteq> None \<or> resp = None"
  shows "fst (snd (Complete inner lib c ctx req t0 t1 (s, i))) = s"
  using assms by (auto simp: Complete_def Let_def)

text \<open>Whatever the inner client returns, \<open>Complete\<close> starts at most one goroutine.\<close>

lemma Complete_spawned_cases:
  "spawned (fst (snd (Complete inner lib c ctx req t0 t1 (s, i)))) = spawned s
   \<or> (\<exists>p. spawned (fst (snd (Complete inner lib c ctx req t0 t1 (s, i)))) = spawned s @ [p]
          \<and> totalTokenCount p = inputTokenCount p + outputTokenCount p)"
proof -
  obtain resp err i1 where r: "inner i ctx req = ((resp, err), i1)"
    by (cases "inner i ctx req") auto
  show ?thesis
  proof (cases "err \<noteq> None \<or> resp = None")
    case True
    with Complete_no_payload [of inner i ctx req resp err i1 lib c t0 t1 s] r
    show ?thesis by simp
  next
    case False
    then obtain a where "resp = Some a" "err = None" by auto
    with Complete_payload [of inner i ctx req a i1 lib c t0 t1 s] r show ?thesis by auto
  qed
qed

lemma Close_spawned_cases:
  "spawned (fst (snd (Close inner lib st t (s, j)))) = spawned s
   \<or> (\<exists>p. spawned (fst (snd (Close inner lib st t (s, j)))) = spawned s @ [p]
          \<and> totalTokenCount p = inputTokenCount p + outputTokenCount p)"
proof (cases "0 <s InputTokens (usage st) \<or> 0 <s OutputTokens (usage st)")
  case True
  with Close_payload [of st inner lib t s j] show ?thesis by auto
next
  case False
  with Close_no_payload [of st inner lib t s j] show ?thesis by simp
qed

text \<open>
  C8. Every payload that \<open>Complete\<close> (one-shot) or \<open>Close\<close> (streamed) hands to
  \<open>SendAsync\<close> has \<open>totalTokenCount = inputTokenCount + outputTokenCount\<close>, with
  the addition of Go's \<open>int\<close>. For a one-shot call the three counts come from the
  input and output tokens of the response's usage alone; its cache-read and cache-write
  tokens go to the two cache fields and its own total is not read. A streamed payload
  has both cache fields zero.
\<close>

theorem payload_total_is_input_plus_output:
  "(\<forall>ps. spawned (fst (snd (Complete inner lib c ctx req t0 t1 (s, i)))) = spawned s @ ps
        \<longrightarrow> (\<forall>p\<in>set ps. totalTokenCount p = inputTokenCount p + outputTokenCount p))
   \<and> (\<forall>ps. spawned (fst (snd (Close inner_close lib st t1 (s, j)))) = spawned s @ ps
        \<longrightarrow> (\<forall>p\<in>set ps. totalTokenCount p = inputTokenCount p + outputTokenCount p))
   \<and> (inner i ctx req = ((Some r, None), i1) \<longrightarrow>
        (\<exists>p. spawned (fst (snd (Complete inner lib c ctx req t0 t1 (s, i)))) = spawned s @ [p]
            \<and> inputTokenCount p = InputTokens (Usage r)
            \<and> outputTokenCount p = OutputTokens (Usage r)
            \<and> totalTokenCount p = InputTokens (Usage r) + OutputTokens (Usage r)
            \<and> cacheReadTokenCount p = CacheReadTokens (Usage r)
            \<and> cacheCreationTokenCount p = CacheWriteTokens (Usage r)))
   \<and> (0 <s InputTokens (usage st) \<or> 0 <s OutputTokens (usage st) \<longrightarrow>
        (\<exists>p. spawned (fst (snd (Close inner_close lib st t1 (s, j)))) = spawned s @ [p]
            \<and> inputTokenCount p = InputTokens (usage st)
            \<and> outputTokenCount p = OutputTokens (usage st)
            \<and> totalTokenCount p = InputTokens (usage st) + OutputTokens (usage st)
            \<and> cacheReadTokenCount p = 0 \<and> cacheCreationTokenCount p = 0))"
proof (intro conjI allI impI)
  fix ps
  assume "spawned (fst (snd (Complete inner lib c ctx req t0 t1 (s, i)))) = spawned s @ ps"
  with Complete_spawned_cases [of inner lib c ctx req t0 t1 s i]
  show "\<forall>p\<in>set ps. totalTokenCount p = inputTokenCount p + outputTokenCount p"
    by auto
next
  fix ps
  assume "spawned (fst (snd (Close inner_close lib st t1 (s, j)))) = spawned s @ ps"
  with Close_spawned_cases [of inner_close lib st t1 s j]
  show "\<forall>p\<in>set ps. totalTokenCount p = inputTokenCount p + outputTokenCount p"
    by auto
next
  assume "inner i ctx req = ((Some r, None), i1)"
  then show "\<exists>p. spawned (fst (snd (Complete inner lib c ctx req t0 t1 (s, i)))) = spawned s @ [p]
            \<and> inputTokenCount p = InputTokens (Usage r)
            \<and> outputTokenCount p = OutputTokens (Usage r)
            \<and> totalTokenCount p = InputTokens (Usage r) + OutputTokens (Usage r)
            \<and> cacheReadTokenCount p = CacheReadTokens (Usage r)
            \<and> cacheCreationTokenCount p = CacheWriteTokens (Usage r)"
    by (rule Complete_payload)
next
  assume "0 <s InputTokens (usage st) \<or> 0 <s OutputTokens (usage st)"
  with Close_payload [of st inner_close lib t1 s j]
  show "\<exists>p. spawned (fst (snd (Close inner_close lib st t1 (s, j)))) = spawned s @ [p]
            \<and> inputTokenCount p = InputTokens (usage st)
            \<and> outputTokenCount p = OutputTokens (usage st)
            \<and> totalTokenCount p = InputTokens (usage st) + OutputTokens (usage st)
            \<and> cacheReadTokenCount p = 0 \<and> cacheCreationTokenCount p = 0"
    by auto
qed

theorem payload_total_is_input_plus_output_witness:
  "answering_client 0 ctx_T1 demo_request = ((Some demo_response, None), 1)
   \<and> CacheReadTokens (Usage demo_response) = 4 \<and> CacheWriteTokens (Usage demo_response) = 3
   \<and> TotalTokens (Usage demo_response) = 25
   \<and> (\<exists>p. spawned (fst (snd (Complete answering_client demo_library demo_client ctx_T1
                                demo_request 0 5 (state0, 0)))) = [p]
         \<and> inputTokenCount p = 10 \<and> outputTokenCount p = 8 \<and> totalTokenCount p = 18
         \<and> cacheReadTokenCount p = 4 \<and> cacheCreationTokenCount p = 3)
   \<and> (\<exists>p. spawned (fst (snd (Close closing_stream demo_library
                                (fresh_streamer\<lparr>usage := Usage demo_response\<rparr>)
                                5 (state0, 0)))) = [p]
         \<and> inputTokenCount p = 10 \<and> outputTokenCount p = 8 \<and> totalTokenCount p = 18
         \<and> cacheReadTokenCount p = 0 \<and> cacheCreationTokenCount p = 0)"
proof -
  have h: "answering_client 0 ctx_T1 demo_request = ((Some demo_response, None), 1)"
    by (simp add: answering_client_def)
  have pos: "0 <s InputTokens (usage (fresh_streamer\<lparr>usage := Usage demo_response\<rparr>))
             \<or> 0 <s OutputTokens (usage (fresh_streamer\<lparr>usage := Usage demo_response\<rparr>))"
    by (simp add: demo_response_def word_sless_alt)
  from payload_total_is_input_plus_output
         [where inner = answering_client and i = 0 and ctx = ctx_T1 and req = demo_request
            and r = demo_response and ?i1.0 = 1 and lib = demo_library and c = demo_client
            and ?t0.0 = 0 and ?t1.0 = 5 and s = state0 and inner_close = closing_stream
            and st = "fresh_streamer\<lparr>usage := Usage demo_response\<rparr>" and j = 0]
       h pos
  show ?thesis
    by (auto simp: demo_response_def state0_def)
qed

subsection \<open>A trace context is already there\<close>

lemma ambient_inherited:
  assumes "GetTraceContext ctx = Some ex" and "TraceID ex \<noteq> ''''"
  shows "ensureTraceContext gen p ctx rc s =
     (ctx\<lparr>trace_value := Some \<lparr>TraceID = TraceID ex, TraceName = TraceName ex,
                                  TraceType = ''agent'', TransactionID = RunID rc,
                                  ParentTxnID = ParentRunID rc,
                                  Squad = ResolveSquad (cfg (p_Meter p)) (AgentID p)\<rparr>\<rparr>,
      RegisterTrace (p_Meter p) (RunID rc) (TraceID ex) s)"
  using assms
  by (cases "ParentRunID rc = ''''")
     (simp_all add: ensureTraceContext_def WithTraceContext_def Let_def)

text \<open>With no trace context around the run entry, the two copies do the same.\<close>

lemma copies_agree_without_trace_context:
  "GetTraceContext ctx = None \<Longrightarrow>
     ensureTraceContext_copy2 gen p ctx rc s = ensureTraceContext gen p ctx rc s"
  by (simp add: ensureTraceContext_copy2_def ensureTraceContext_def Let_def)

text \<open>
  The copy in \<open>planner.go\<close>: when the context of a run entry carries a trace context
  with a non-empty TraceID, \<open>ensureTraceContext\<close> builds a new trace context with
  that TraceID and TraceName and with the run's own ID as TransactionID, sets ParentTxnID
  to ParentRunID for a child run (and leaves it empty for a top-level run), registers
  (RunID, inherited TraceID), mints nothing and attaches the new trace context.
\<close>

theorem ensureTraceContext_inherits_ambient:
  assumes "GetTraceContext ctx = Some ex" and "TraceID ex \<noteq> ''''"
  shows "(\<exists>tc. GetTraceContext (fst (ensureTraceContext gen p ctx rc s)) = Some tc
            \<and> TraceID tc = TraceID ex \<and> TraceName tc = TraceName ex
            \<and> TransactionID tc = RunID rc
            \<and> (ParentRunID rc \<noteq> '''' \<longrightarrow> ParentTxnID tc = ParentRunID rc)
            \<and> (ParentRunID rc = '''' \<longrightarrow> ParentTxnID tc = ''''))
       \<and> traces (snd (ensureTraceContext gen p ctx rc s)) = (traces s)(RunID rc \<mapsto> TraceID ex)
       \<and> uuids (snd (ensureTraceContext gen p ctx rc s)) = uuids s"
  using assms
  by (simp add: ambient_inherited [OF assms] GetTraceContext_def)

theorem ensureTraceContext_inherits_ambient_witness:
  "GetTraceContext ctx_T1 = Some trace_T1 \<and> TraceID trace_T1 \<noteq> ''''
   \<and> GetTraceContext (fst (ensureTraceContext demo_uuid demo_planner ctx_T1 run_R2 state_R1))
       = Some \<lparr>TraceID = ''T1'', TraceName = ''chat'', TraceType = ''agent'',
               TransactionID = ''R2'', ParentTxnID = ''R1'', Squad = ''weather''\<rparr>
   \<and> traces (snd (ensureTraceContext demo_uuid demo_planner ctx_T1 run_R2 state_R1)) ''R2''
       = Some ''T1''
   \<and> traces (snd (ensureTraceContext demo_uuid demo_planner ctx_T1 run_R2 state_R1)) ''R1''
       = Some ''T1''"
proof -
  have h1: "GetTraceContext ctx_T1 = Some trace_T1"
    by (simp add: GetTraceContext_def ctx_T1_def)
  have h2: "TraceID trace_T1 \<noteq> ''''" by (simp add: trace_T1_def)
  have sq: "ResolveSquad (cfg (p_Meter demo_planner)) (AgentID demo_planner) = ''weather''"
    by (simp add: ResolveSquad_def DetectSquad_def Index_def demo_planner_def demo_meter_def
        demo_config_def)
  from ensureTraceContext_inherits_ambient
         [OF h1 h2, of demo_uuid demo_planner run_R2 state_R1]
       ambient_inherited [OF h1 h2, of demo_uuid demo_planner run_R2 state_R1] h1 h2 sq
  show ?thesis
    by (simp add: GetTraceContext_def trace_T1_def run_R2_def state_R1_def state0_def)
qed

text \<open>
  The second copy returns the context and the state as they are whenever any trace
  context is around the run entry.
\<close>

lemma copy2_keeps_any_trace_context:
  "GetTraceContext ctx = Some ex \<Longrightarrow> ensureTraceContext_copy2 gen p ctx rc s = (ctx, s)"
  by (simp add: ensureTraceContext_copy2_def)

text \<open>
  C9. A run entry under a trace context with a non-empty TraceID gets a new trace context
  that inherits TraceID and TraceName, has \<open>ParentTxnID = ParentRunID\<close> for a child
  run, and (RunID, inherited TraceID) is registered. The copy in \<open>planner.go\<close> does so
  (above). The second copy does not: entering the child run \<open>R2\<close> under the trace
  context of its parent \<open>R1\<close> (trace \<open>T1\<close>), it registers nothing for \<open>R2\<close>
  and hands on the trace context of \<open>R1\<close>, with TransactionID \<open>R1\<close> and an empty
  ParentTxnID.
\<close>

theorem ensureTraceContext_copy2_under_parent_context:
  "GetTraceContext ctx_T1 = Some trace_T1 \<and> TraceID trace_T1 = ''T1''
   \<and> RunID run_R2 = ''R2'' \<and> ParentRunID run_R2 = ''R1''
   \<and> ensureTraceContext_copy2 demo_uuid demo_planner ctx_T1 run_R2 state_R1
       = (ctx_T1, state_R1)
   \<and> traces (snd (ensureTraceContext_copy2 demo_uuid demo_planner ctx_T1 run_R2 state_R1))
       ''R2'' = None
   \<and> map_option TransactionID
       (GetTraceContext (fst (ensureTraceContext_copy2 demo_uuid demo_planner ctx_T1 run_R2
                                 state_R1))) = Some ''R1''
   \<and> map_option ParentTxnID
       (GetTraceContext (fst (ensureTraceContext_copy2 demo_uuid demo_planner ctx_T1 run_R2
                                 state_R1))) = Some ''''
   \<and> traces (snd (ensureTraceContext demo_uuid demo_planner ctx_T1 run_R2 state_R1)) ''R2''
       = Some ''T1''
   \<and> map_option ParentTxnID
       (GetTraceContext (fst (ensureTraceContext demo_uuid demo_planner ctx_T1 run_R2
                                 state_R1))) = Some ''R1''"
  by (simp add: ensureTraceContext_copy2_def ensureTraceContext_def WithTraceContext_def
      RegisterTrace_def Debug_log_def GetTraceContext_def ctx_T1_def trace_T1_def
      run_R2_def state_R1_def state0_def Let_def)

subsection \<open>A child-run link without trace context\<close>

lemma Send_link_without_trace:
  assumes "GetTraceContext ctx = None"
  shows "traces (fst (snd (MeteringSink_Send Inner mo ctx (ChildRunLinked r a child t) (s, j))))
           = traces s"
    and "uuids (fst (snd (MeteringSink_Send Inner mo ctx (ChildRunLinked r a child t) (s, j))))
           = uuids s"
  using assms
  by (simp_all add: MeteringSink_Send_def Let_def split: option.splits prod.splits)

text \<open>
  C10. When the context of a child-run link carries no trace context, \<open>Send\<close> leaves
  the whole registry as it is and still hands the event to the inner sink. What the
  child run does later does not depend on this: its resolution looks up its
  \<open>ParentRunID\<close>, not its own run ID. With no trace context around it, the child
  inherits the parent's TraceID when the parent is registered (under a non-empty ID),
  without any warning, and takes the fallback (fresh TraceID, warning) when the parent
  is not registered.
\<close>

theorem child_link_without_trace_context:
  assumes "GetTraceContext ctx = None"
    and "s1 = fst (snd (MeteringSink_Send Inner mo ctx
                          (ChildRunLinked r childAgentID childRunID toolCallID) (s, j)))"
    and "ParentRunID rc \<noteq> ''''"
    and "GetTraceContext ctx2 = None"
  shows "traces s1 = traces s
       \<and> fst (MeteringSink_Send Inner mo ctx
                (ChildRunLinked r childAgentID childRunID toolCallID) (s, j))
           = fst (Inner j ctx (ChildRunLinked r childAgentID childRunID toolCallID))
       \<and> snd (snd (MeteringSink_Send Inner mo ctx
                      (ChildRunLinked r childAgentID childRunID toolCallID) (s, j)))
           = snd (Inner j ctx (ChildRunLinked r childAgentID childRunID toolCallID))
       \<and> (traces s (ParentRunID rc) = Some tid \<and> tid \<noteq> '''' \<longrightarrow>
            map_option TraceID (GetTraceContext (fst (ensureTraceContext gen p ctx2 rc s1)))
              = Some tid
            \<and> uuids (snd (ensureTraceContext gen p ctx2 rc s1)) = uuids s1
            \<and> logged (snd (ensureTraceContext gen p ctx2 rc s1))
                = logged s1
                  @ (if debug (logger (p_Meter p))
                     then [Log DEBUG ''registered trace: run=%s trace=%s''
                             [Str (RunID rc), Str tid]]
                     else []))
       \<and> (traces s (ParentRunID rc) = None \<and> gen (uuids s1) \<noteq> '''' \<longrightarrow>
            map_option TraceID (GetTraceContext (fst (ensureTraceContext gen p ctx2 rc s1)))
              = Some (gen (uuids s1))
            \<and> uuids (snd (ensureTraceContext gen p ctx2 rc s1)) = Suc (uuids s1)
            \<and> Log WARN ''parent trace not found for run=%s parent=%s, generating new traceID''
                 [Str (RunID rc), Str (ParentRunID rc)]
                \<in> set (logged (snd (ensureTraceContext gen p ctx2 rc s1))))"
proof (intro conjI impI)
  show frame: "traces s1 = traces s"
    using assms(1,2) Send_link_without_trace(1) by simp
  show "fst (MeteringSink_Send Inner mo ctx
                (ChildRunLinked r childAgentID childRunID toolCallID) (s, j))
           = fst (Inner j ctx (ChildRunLinked r childAgentID childRunID toolCallID))"
    by (simp add: MeteringSink_Send_def Let_def split: option.splits prod.splits)
  show "snd (snd (MeteringSink_Send Inner mo ctx
                      (ChildRunLinked r childAgentID childRunID toolCallID) (s, j)))
           = snd (Inner j ctx (ChildRunLinked r childAgentID childRunID toolCallID))"
    by (simp add: MeteringSink_Send_def Let_def split: option.splits prod.splits)
  {
    assume a: "traces s (ParentRunID rc) = Some tid \<and> tid \<noteq> ''''"
    with frame have reg: "traces s1 (ParentRunID rc) = Some tid" and ne: "tid \<noteq> ''''"
      by simp_all
    note hit = child_hit [OF assms(3) reg ne disjI1 [OF assms(4)], of gen p]
    show "map_option TraceID (GetTraceContext (fst (ensureTraceContext gen p ctx2 rc s1)))
              = Some tid"
      by (simp add: hit GetTraceContext_def)
    show "uuids (snd (ensureTraceContext gen p ctx2 rc s1)) = uuids s1"
      by (simp add: hit)
    show "logged (snd (ensureTraceContext gen p ctx2 rc s1))
                = logged s1
                  @ (if debug (logger (p_Meter p))
                     then [Log DEBUG ''registered trace: run=%s trace=%s''
                             [Str (RunID rc), Str tid]]
                     else [])"
      by (simp add: hit logged_RegisterTrace)
  }
  {
    assume a: "traces s (ParentRunID rc) = None \<and> gen (uuids s1) \<noteq> ''''"
    with frame have reg: "traces s1 (ParentRunID rc) = None" and ne: "gen (uuids s1) \<noteq> ''''"
      by simp_all
    from assms(3) reg assms(4) ne
    have miss: "ensureTraceContext gen p ctx2 rc s1 =
      (ctx2\<lparr>trace_value := Some \<lparr>TraceID = gen (uuids s1), TraceName = '''',
                                    TraceType = ''agent'', TransactionID = RunID rc,
                                    ParentTxnID = ParentRunID rc,
                                    Squad = ResolveSquad (cfg (p_Meter p)) (AgentID p)\<rparr>\<rparr>,
       RegisterTrace (p_Meter p) (RunID rc) (gen (uuids s1))
         ((Warn_log (logger (p_Meter p))
             ''parent trace not found for run=%s parent=%s, generating new traceID''
             [Str (RunID rc), Str (ParentRunID rc)] s1)\<lparr>uuids := Suc (uuids s1)\<rparr>))"
      by (simp add: child_miss)
    show "map_option TraceID (GetTraceContext (fst (ensureTraceContext gen p ctx2 rc s1)))
              = Some (gen (uuids s1))"
      by (simp add: miss GetTraceContext_def)
    show "uuids (snd (ensureTraceContext gen p ctx2 rc s1)) = Suc (uuids s1)"
      by (simp add: miss)
    show "Log WARN ''parent trace not found for run=%s parent=%s, generating new traceID''
                 [Str (RunID rc), Str (ParentRunID rc)]
                \<in> set (logged (snd (ensureTraceContext gen p ctx2 rc s1)))"
      by (simp add: miss logged_RegisterTrace)
  }
qed

theorem child_link_without_trace_context_witness:
  "GetTraceContext no_trace = None \<and> ParentRunID run_R2 \<noteq> ''''
   \<and> traces (fst (snd (MeteringSink_Send counting_sink (Some demo_meter) no_trace link_R2
                          (state0, 0)))) = traces state0
   \<and> fst (MeteringSink_Send counting_sink (Some demo_meter) no_trace link_R2 (state0, 0)) = None
   \<and> snd (snd (MeteringSink_Send counting_sink (Some demo_meter) no_trace link_R2 (state0, 0)))
       = 1
   \<and> traces state0 (ParentRunID run_R2) = None
   \<and> map_option TraceID
       (GetTraceContext (fst (ensureTraceContext demo_uuid demo_planner no_trace run_R2
          (fst (snd (MeteringSink_Send counting_sink (Some demo_meter) no_trace link_R2
                       (state0, 0))))))) = Some ''u''
   \<and> traces state_R1 (ParentRunID run_R2) = Some ''T1''
   \<and> map_option TraceID
       (GetTraceContext (fst (ensureTraceContext demo_uuid demo_planner no_trace run_R2
          (fst (snd (MeteringSink_Send counting_sink (Some demo_meter) no_trace link_R2
                       (state_R1, 0))))))) = Some ''T1''"
proof -
  have h1: "GetTraceContext no_trace = None" by (simp add: GetTraceContext_def no_trace_def)
  have h3: "ParentRunID run_R2 \<noteq> ''''" by (simp add: run_R2_def)
  have u0: "uuids (fst (snd (MeteringSink_Send counting_sink (Some demo_meter) no_trace
                               (ChildRunLinked ''R1'' ''weather.forecaster'' ''R2'' ''call-1'')
                               (state0, 0)))) = 0"
    by (simp add: Send_link_without_trace(2) [OF h1] state0_def)
  have r0: "traces state0 (ParentRunID run_R2) = None" by (simp add: state0_def)
  have r1: "traces state_R1 (ParentRunID run_R2) = Some ''T1''"
    by (simp add: state_R1_def state0_def run_R2_def)
  from child_link_without_trace_context
         [OF h1 refl h3 h1, where Inner = counting_sink and mo = "Some demo_meter"
            and r = "''R1''" and childAgentID = "''weather.forecaster''"
            and childRunID = "''R2''" and toolCallID = "''call-1''" and s = state0 and j = 0
            and gen = demo_uuid and p = demo_planner and tid = "''T1''"]
       child_link_without_trace_context
         [OF h1 refl h3 h1, where Inner = counting_sink and mo = "Some demo_meter"
            and r = "''R1''" and childAgentID = "''weather.forecaster''"
            and childRunID = "''R2''" and toolCallID = "''call-1''" and s = state_R1 and j = 0
            and gen = demo_uuid and p = demo_planner and tid = "''T1''"]
       h1 h3 u0 r0 r1
  show ?thesis
    by (simp add: link_R2_def counting_sink_def demo_uuid_def)
qed

text \<open>
  C10 as stated fails in its last part. Run \<open>R1\<close> is registered with trace \<open>T1\<close>;
  its link to \<open>R2\<close> comes under a context without trace context, so \<open>R2\<close> is not
  pre-registered. \<open>R2\<close> then resolves by the entry of its parent \<open>R1\<close>: it gets
  \<open>T1\<close>, no UUID is drawn and nothing is logged. This is not the fallback.
\<close>

theorem child_link_without_trace_context_counterexample:
  "GetTraceContext no_trace = None
   \<and> RunID run_R2 = ''R2'' \<and> ParentRunID run_R2 = ''R1''
   \<and> traces (fst (snd (MeteringSink_Send counting_sink (Some demo_meter) no_trace link_R2
                          (state_R1, 0)))) ''R2'' = None
   \<and> map_option TraceID
       (GetTraceContext (fst (ensureTraceContext demo_uuid demo_planner no_trace run_R2
          (fst (snd (MeteringSink_Send counting_sink (Some demo_meter) no_trace link_R2
                       (state_R1, 0))))))) = Some ''T1''
   \<and> uuids (snd (ensureTraceContext demo_uuid demo_planner no_trace run_R2
          (fst (snd (MeteringSink_Send counting_sink (Some demo_meter) no_trace link_R2
                       (state_R1, 0)))))) = 0
   \<and> logged (snd (ensureTraceContext demo_uuid demo_planner no_trace run_R2
          (fst (snd (MeteringSink_Send counting_sink (Some demo_meter) no_trace link_R2
                       (state_R1, 0)))))) = []"
  by (simp add: MeteringSink_Send_def link_R2_def counting_sink_def demo_meter_def
      Debug_log_def GetTraceContext_def no_trace_def run_R2_def state_R1_def state0_def
      ensureTraceContext_def LookupTrace_def WithTraceContext_def RegisterTrace_def
      demo_planner_def Let_def)

end
